theory Spec2Isabelle
  imports Complex_Main "HOL-Library.Sublist"
begin

chapter \<open>NEXUS smart voice assistant: embedding of the source\<close>

section \<open>JavaScript strings\<close>

text \<open>
  A JavaScript string is a sequence of UTF-16 code units. The model keeps the code units
  below 256 (ASCII and Latin-1), one \<^typ>\<open>char\<close> each, which covers every literal and
  every pattern of the repository.
\<close>

text \<open>
  The character classes are written on the eight bits of a code unit
  (\<open>Char b0 \<dots> b7\<close>, least significant bit first), so that they evaluate by rewriting.
\<close>

fun is_js_space :: "char \<Rightarrow> bool" where
  \<comment> \<open>WhiteSpace and LineTerminator below 256: TAB, LF, VT, FF, CR (9 to 13), SP (32),
     NBSP (160). It is the set of \<open>String.prototype.trim\<close> and of the class \<open>\\s\<close>.\<close>
  "is_js_space (Char b0 b1 b2 b3 b4 b5 b6 b7) =
     ((\<not> b7 \<and> \<not> b6 \<and> \<not> b5 \<and> \<not> b4 \<and> b3 \<and>
         ((\<not> b2 \<and> (b1 \<or> b0)) \<or> (b2 \<and> \<not> b1)))
      \<or> (\<not> b6 \<and> b5 \<and> \<not> b4 \<and> \<not> b3 \<and> \<not> b2 \<and> \<not> b1 \<and> \<not> b0))"

definition trim :: "string \<Rightarrow> string" where
  \<comment> \<open>\<open>String.prototype.trim\<close>\<close>
  "trim s = rev (dropWhile is_js_space (rev (dropWhile is_js_space s)))"

definition letter_index :: "bool \<Rightarrow> bool \<Rightarrow> bool \<Rightarrow> bool \<Rightarrow> bool \<Rightarrow> bool" where
  \<comment> \<open>The low five bits are between 1 and 26: a letter of the ASCII rows 0x40 and 0x60.\<close>
  "letter_index b0 b1 b2 b3 b4 =
     ((b0 \<or> b1 \<or> b2 \<or> b3 \<or> b4) \<and> \<not> (b4 \<and> b3 \<and> (b2 \<or> (b1 \<and> b0))))"

definition latin1_letter_index :: "bool \<Rightarrow> bool \<Rightarrow> bool \<Rightarrow> bool \<Rightarrow> bool \<Rightarrow> bool" where
  \<comment> \<open>The low five bits are neither 23 nor 31: a letter of the Latin-1 rows 0xC0 and 0xE0
     (0xD7 and 0xF7 are the multiplication and division signs; 0xDF and 0xFF have no
     counterpart below 256).\<close>
  "latin1_letter_index b0 b1 b2 b3 b4 =
     (\<not> (b4 \<and> \<not> b3 \<and> b2 \<and> b1 \<and> b0) \<and> \<not> (b4 \<and> b3 \<and> b2 \<and> b1 \<and> b0))"

fun toLowerCase_char :: "char \<Rightarrow> char" where
  "toLowerCase_char (Char b0 b1 b2 b3 b4 b5 b6 b7) =
     (if b6 \<and> \<not> b5 \<and>
         (if b7 then latin1_letter_index b0 b1 b2 b3 b4 else letter_index b0 b1 b2 b3 b4)
      then Char b0 b1 b2 b3 b4 True b6 b7
      else Char b0 b1 b2 b3 b4 b5 b6 b7)"

definition toLowerCase :: "string \<Rightarrow> string" where
  \<comment> \<open>\<open>String.prototype.toLowerCase\<close>\<close>
  "toLowerCase s = map toLowerCase_char s"

fun canonicalize :: "char \<Rightarrow> char" where
  \<comment> \<open>Canonicalize of the regular expression semantics under the \<open>i\<close> flag: the upper
     case of the code unit when that is one code unit of the same range.\<close>
  "canonicalize (Char b0 b1 b2 b3 b4 b5 b6 b7) =
     (if b6 \<and> b5 \<and>
         (if b7 then latin1_letter_index b0 b1 b2 b3 b4 else letter_index b0 b1 b2 b3 b4)
      then Char b0 b1 b2 b3 b4 False b6 b7
      else Char b0 b1 b2 b3 b4 b5 b6 b7)"

fun is_digit :: "char \<Rightarrow> bool" where
  \<comment> \<open>\<open>\\d\<close>: 0x30 to 0x39\<close>
  "is_digit (Char b0 b1 b2 b3 b4 b5 b6 b7) =
     (\<not> b7 \<and> \<not> b6 \<and> b5 \<and> b4 \<and> \<not> (b3 \<and> (b2 \<or> b1)))"

fun is_word_char :: "char \<Rightarrow> bool" where
  \<comment> \<open>\<open>\\w\<close>: letters, digits and the underscore (0x5F)\<close>
  "is_word_char (Char b0 b1 b2 b3 b4 b5 b6 b7) =
     (\<not> b7 \<and>
      (if b6 then letter_index b0 b1 b2 b3 b4 \<or> (\<not> b5 \<and> b4 \<and> b3 \<and> b2 \<and> b1 \<and> b0)
       else b5 \<and> b4 \<and> \<not> (b3 \<and> (b2 \<or> b1))))"

fun is_line_terminator :: "char \<Rightarrow> bool" where
  \<comment> \<open>LF and CR, the line terminators below 256\<close>
  "is_line_terminator (Char b0 b1 b2 b3 b4 b5 b6 b7) =
     (\<not> b7 \<and> \<not> b6 \<and> \<not> b5 \<and> \<not> b4 \<and> b3 \<and>
      ((\<not> b2 \<and> b1 \<and> \<not> b0) \<or> (b2 \<and> \<not> b1 \<and> b0)))"

function decimal :: "nat \<Rightarrow> string" where
  \<comment> \<open>\<open>Number.prototype.toString\<close> on a natural number\<close>
  "decimal n =
     (if n < 10 then [char_of (48 + n)]
      else decimal (n div 10) @ [char_of (48 + n mod 10)])"
  by pat_completeness auto
termination
  by (relation "measure id") auto

declare decimal.simps [simp del]

section \<open>JavaScript numbers and primitive values\<close>

text \<open>
  A number is a finite value, \<open>NaN\<close> or an infinity. Finite values are rationals: the
  arithmetic of the model is exact, where the source rounds to a double, and the two zeros
  are one value.
\<close>

datatype jsnum = Fin rat | NaN | PosInf | NegInf

fun js_lt :: "jsnum \<Rightarrow> jsnum \<Rightarrow> bool" where
  \<comment> \<open>the operator \<open><\<close> on numbers\<close>
  "js_lt (Fin a) (Fin b) = (a < b)"
| "js_lt (Fin a) PosInf = True"
| "js_lt NegInf (Fin b) = True"
| "js_lt NegInf PosInf = True"
| "js_lt _ _ = False"

definition js_gt :: "jsnum \<Rightarrow> jsnum \<Rightarrow> bool" where
  "js_gt a b = js_lt b a"

definition Math_min :: "jsnum \<Rightarrow> jsnum \<Rightarrow> jsnum" where
  "Math_min a b = (if a = NaN \<or> b = NaN then NaN else if js_lt b a then b else a)"

definition Math_max :: "jsnum \<Rightarrow> jsnum \<Rightarrow> jsnum" where
  "Math_max a b = (if a = NaN \<or> b = NaN then NaN else if js_lt a b then b else a)"

fun js_add :: "jsnum \<Rightarrow> jsnum \<Rightarrow> jsnum" where
  "js_add (Fin a) (Fin b) = Fin (a + b)"
| "js_add NaN _ = NaN"
| "js_add _ NaN = NaN"
| "js_add PosInf NegInf = NaN"
| "js_add NegInf PosInf = NaN"
| "js_add PosInf _ = PosInf"
| "js_add NegInf _ = NegInf"
| "js_add (Fin a) b = b"

fun js_neg :: "jsnum \<Rightarrow> jsnum" where
  "js_neg (Fin a) = Fin (- a)"
| "js_neg NaN = NaN"
| "js_neg PosInf = NegInf"
| "js_neg NegInf = PosInf"

definition js_sub :: "jsnum \<Rightarrow> jsnum \<Rightarrow> jsnum" where
  "js_sub a b = js_add a (js_neg b)"

definition signed_inf :: "bool \<Rightarrow> jsnum" where
  "signed_inf negative = (if negative then NegInf else PosInf)"

fun js_mul :: "jsnum \<Rightarrow> jsnum \<Rightarrow> jsnum" where
  "js_mul (Fin a) (Fin b) = Fin (a * b)"
| "js_mul NaN _ = NaN"
| "js_mul _ NaN = NaN"
| "js_mul (Fin a) b = (if a = 0 then NaN else signed_inf ((a < 0) \<noteq> (b = NegInf)))"
| "js_mul a (Fin b) = (if b = 0 then NaN else signed_inf ((b < 0) \<noteq> (a = NegInf)))"
| "js_mul a b = signed_inf ((a = NegInf) \<noteq> (b = NegInf))"

fun js_div :: "jsnum \<Rightarrow> jsnum \<Rightarrow> jsnum" where
  "js_div (Fin a) (Fin b) =
     (if b \<noteq> 0 then Fin (a / b) else if a = 0 then NaN else signed_inf (a < 0))"
| "js_div NaN _ = NaN"
| "js_div _ NaN = NaN"
| "js_div (Fin a) b = Fin 0"
| "js_div a (Fin b) = signed_inf ((b < 0) \<noteq> (a = NegInf))"
| "js_div a b = NaN"

text \<open>The primitive values that a device property or a command parameter holds.\<close>

datatype prim = Undefined | Null | Bool bool | Num jsnum | Str string

fun truthy :: "prim \<Rightarrow> bool" where
  \<comment> \<open>ToBoolean\<close>
  "truthy Undefined = False"
| "truthy Null = False"
| "truthy (Bool b) = b"
| "truthy (Num n) = (n \<noteq> Fin 0 \<and> n \<noteq> NaN)"
| "truthy (Str s) = (s \<noteq> [])"

definition js_or :: "prim \<Rightarrow> prim \<Rightarrow> prim" where
  \<comment> \<open>the operator \<open>||\<close>\<close>
  "js_or a b = (if truthy a then a else b)"

definition digit_value :: "char \<Rightarrow> nat option" where
  \<comment> \<open>the value of a digit \<open>0-9\<close>, \<open>a-f\<close> or \<open>A-F\<close>\<close>
  "digit_value c =
     (let n = of_char c :: nat
      in if 48 \<le> n \<and> n \<le> 57 then Some (n - 48)
         else if 97 \<le> n \<and> n \<le> 102 then Some (n - 87)
         else if 65 \<le> n \<and> n \<le> 70 then Some (n - 55)
         else None)"

definition digits_value :: "nat \<Rightarrow> string \<Rightarrow> nat option" where
  \<comment> \<open>the value of a non-empty run of digits of the given base; \<open>None\<close> for anything else\<close>
  "digits_value base ds =
     (if ds = [] then None
      else fold (\<lambda>c acc. case acc of
                   None \<Rightarrow> None
                 | Some n \<Rightarrow> (case digit_value c of
                               None \<Rightarrow> None
                             | Some d \<Rightarrow> if d < base then Some (n * base + d) else None))
                ds (Some 0))"

definition radix_literal :: "nat \<Rightarrow> string \<Rightarrow> jsnum" where
  "radix_literal base ds =
     (case digits_value base ds of None \<Rightarrow> NaN | Some n \<Rightarrow> Fin (of_nat n))"

definition exponent_part :: "string \<Rightarrow> int option" where
  \<comment> \<open>ExponentPart, or nothing\<close>
  "exponent_part r =
     (case r of
        [] \<Rightarrow> Some 0
      | c # ds \<Rightarrow>
          if c = CHR ''e'' \<or> c = CHR ''E'' then
            (case ds of
               [] \<Rightarrow> None
             | d # ds' \<Rightarrow>
                 if d = CHR ''-'' then map_option (\<lambda>n. - int n) (digits_value 10 ds')
                 else if d = CHR ''+'' then map_option int (digits_value 10 ds')
                 else map_option int (digits_value 10 ds))
          else None)"

definition unsigned_decimal :: "string \<Rightarrow> rat option" where
  \<comment> \<open>StrUnsignedDecimalLiteral without \<open>Infinity\<close>\<close>
  "unsigned_decimal u =
     (let ip = takeWhile is_digit u;
          r1 = dropWhile is_digit u;
          fp = (case r1 of [] \<Rightarrow> [] | c # r \<Rightarrow>
                  if c = CHR ''.'' then takeWhile is_digit r else []);
          r2 = (case r1 of [] \<Rightarrow> [] | c # r \<Rightarrow>
                  if c = CHR ''.'' then dropWhile is_digit r else r1)
      in if ip = [] \<and> fp = [] then None
         else case exponent_part r2 of
                None \<Rightarrow> None
              | Some e \<Rightarrow>
                  let digits = (case digits_value 10 (ip @ fp) of None \<Rightarrow> 0 | Some n \<Rightarrow> n);
                      m = of_nat digits / 10 ^ length fp
                  in Some (if 0 \<le> e then m * 10 ^ nat e else m / 10 ^ nat (- e)))"

definition decimal_literal :: "string \<Rightarrow> jsnum" where
  \<comment> \<open>StrDecimalLiteral: an optional sign, then \<open>Infinity\<close> or a decimal number\<close>
  "decimal_literal t =
     (let negative = (case t of [] \<Rightarrow> False | c # _ \<Rightarrow> c = CHR ''-'');
          u = (case t of [] \<Rightarrow> [] | c # r \<Rightarrow>
                 if c = CHR ''-'' \<or> c = CHR ''+'' then r else t)
      in if u = ''Infinity'' then signed_inf negative
         else case unsigned_decimal u of
                None \<Rightarrow> NaN
              | Some m \<Rightarrow> Fin (if negative then - m else m))"

definition StringToNumber :: "string \<Rightarrow> jsnum" where
  \<comment> \<open>StringToNumber: the empty or blank string is 0, a numeric literal is its value,
     anything else is \<open>NaN\<close>\<close>
  "StringToNumber s =
     (let t = trim s
      in case t of
           [] \<Rightarrow> Fin 0
         | c # r \<Rightarrow>
             (case r of
                [] \<Rightarrow> decimal_literal t
              | d # ds \<Rightarrow>
                  if c = CHR ''0'' \<and> (d = CHR ''x'' \<or> d = CHR ''X'') then radix_literal 16 ds
                  else if c = CHR ''0'' \<and> (d = CHR ''o'' \<or> d = CHR ''O'') then radix_literal 8 ds
                  else if c = CHR ''0'' \<and> (d = CHR ''b'' \<or> d = CHR ''B'') then radix_literal 2 ds
                  else decimal_literal t))"

fun ToNumber :: "prim \<Rightarrow> jsnum" where
  "ToNumber Undefined = NaN"
| "ToNumber Null = Fin 0"
| "ToNumber (Bool b) = Fin (if b then 1 else 0)"
| "ToNumber (Num n) = n"
| "ToNumber (Str s) = StringToNumber s"

definition js_plus_nat :: "prim \<Rightarrow> nat \<Rightarrow> prim" where
  \<comment> \<open>\<open>v + n\<close> for a number literal \<open>n\<close>: concatenation when \<open>v\<close> is a string\<close>
  "js_plus_nat v n =
     (case v of
        Str s \<Rightarrow> Str (s @ decimal n)
      | _ \<Rightarrow> Num (js_add (ToNumber v) (Fin (of_nat n))))"

definition js_minus_nat :: "prim \<Rightarrow> nat \<Rightarrow> jsnum" where
  \<comment> \<open>\<open>v - n\<close> for a number literal \<open>n\<close>\<close>
  "js_minus_nat v n = js_sub (ToNumber v) (Fin (of_nat n))"

section \<open>SpeechSynthesis (src/unnamed/part\_009)\<close>

text \<open>
  \<open>interface SpeechRequest { text: string; language?: string; priority?: number }\<close>.
  Every request in the queue is built by \<open>speak\<close>, which always fills the three fields.
  A priority is a finite number, modelled as a rational.
\<close>

record SpeechRequest =
  text' :: string
  language :: string
  priority :: rat

text \<open>
  The fields of the class that the queue discipline uses. \<open>defaultLanguage\<close> is the value
  of \<open>config.get('speechSynthesis.defaultLanguage', 'en-US')\<close>. \<open>spoken\<close> is a ghost
  field: the requests handed to \<open>speakText\<close> so far, oldest first (the dequeue order).
\<close>

record SpeechSynthesis =
  speechQueue :: "SpeechRequest list"
  isPlaying :: bool
  defaultLanguage :: string
  spoken :: "SpeechRequest list"

fun findIndex :: "('a \<Rightarrow> bool) \<Rightarrow> 'a list \<Rightarrow> nat option" where
  \<comment> \<open>\<open>Array.prototype.findIndex\<close>; \<open>None\<close> is the result \<open>-1\<close>.\<close>
  "findIndex P [] = None"
| "findIndex P (x # xs) =
     (if P x then Some 0 else map_option Suc (findIndex P xs))"

definition priority_or_1 :: "SpeechRequest \<Rightarrow> rat" where
  \<comment> \<open>\<open>item.priority || 1\<close>: the number 0 is falsy.\<close>
  "priority_or_1 item = (if priority item = 0 then 1 else priority item)"

definition processQueue :: "SpeechSynthesis \<Rightarrow> SpeechSynthesis" where
  \<comment> \<open>The part of \<open>processQueue\<close> that runs before its \<open>await\<close>.\<close>
  "processQueue s =
     (if isPlaying s \<or> speechQueue s = [] then s
      else s\<lparr>speechQueue := tl (speechQueue s),
             isPlaying := True,
             spoken := spoken s @ [hd (speechQueue s)]\<rparr>)"

definition new_request :: "string \<Rightarrow> string \<Rightarrow> rat \<Rightarrow> SpeechSynthesis \<Rightarrow> SpeechRequest" where
  \<comment> \<open>The object \<open>request\<close> that \<open>speak\<close> builds. An absent \<open>language\<close> is the empty
     string (both are falsy).\<close>
  "new_request txt lang prio s =
     \<lparr>text' = trim txt,
      language = (if lang \<noteq> [] then lang else defaultLanguage s),
      priority = prio\<rparr>"

definition speak :: "string \<Rightarrow> string \<Rightarrow> rat \<Rightarrow> SpeechSynthesis \<Rightarrow> SpeechSynthesis" where
  \<comment> \<open>\<open>speak(text, language, priority)\<close>; an absent \<open>priority\<close> is 1 at the call.\<close>
  "speak txt lang prio s =
     (if trim txt = [] then s
      else
        let request = new_request txt lang prio s;
            q = speechQueue s
        in processQueue
             (case findIndex (\<lambda>item. priority_or_1 item < prio) q of
                None \<Rightarrow> s\<lparr>speechQueue := q @ [request]\<rparr>
              | Some insertIndex \<Rightarrow>
                  s\<lparr>speechQueue := take insertIndex q @ request # drop insertIndex q\<rparr>))"

definition utterance_settled :: "SpeechSynthesis \<Rightarrow> SpeechSynthesis" where
  \<comment> \<open>The \<open>finally\<close> block of \<open>processQueue\<close>, run when \<open>speakText\<close> resolves or rejects.
     When the queue is not empty it arms a timer that calls \<open>processQueue\<close>.\<close>
  "utterance_settled s = s\<lparr>isPlaying := False\<rparr>"

function drain :: "SpeechSynthesis \<Rightarrow> SpeechSynthesis" where
  \<comment> \<open>Playback of the whole queue when no further \<open>speak\<close> arrives: every utterance
     settles, and the timer it arms dequeues the next request.\<close>
  "drain s =
     (let s1 = utterance_settled s
      in if speechQueue s1 = [] then s1 else drain (processQueue s1))"
  by pat_completeness auto
termination
  by (relation "measure (\<lambda>s. length (speechQueue s))")
     (auto simp: utterance_settled_def processQueue_def)

declare drain.simps [simp del]

section \<open>DeviceManager (src/unnamed/part\_007)\<close>

text \<open>
  \<open>interface Device { id; name; type; status }\<close>, all strings, and
  \<open>interface DeviceState { id; status: 'online' | 'offline' | 'error'; lastSeen; properties }\<close>.
  \<open>properties\<close> and the \<open>parameters\<close> of a command are objects with primitive members
  (\<open>Record<string, any>\<close>); an absent member reads as \<open>undefined\<close>. A \<open>parameters\<close>
  argument that is absent or not an object is the empty map: no member of it can be read.
\<close>

record Device =
  device_id :: string
  device_name :: string
  device_type :: string
  device_status :: string

datatype status = Online | Offline | Error

record DeviceState =
  state_id :: string
  state_status :: status
  lastSeen :: nat
  properties :: "string \<rightharpoonup> prim"

type_synonym parameters = "string \<rightharpoonup> prim"

record Command =
  command_id :: string
  action :: string
  parameters :: parameters

text \<open>
  A message is a template literal: its pieces of text and the values interpolated
  between them.
\<close>

datatype piece = T string | V prim

record Response =
  success :: bool
  message :: "piece list"

text \<open>The payload of the \<open>deviceControlled\<close> event.\<close>

record deviceControlled =
  event_deviceId :: string
  event_success :: bool
  event_message :: "piece list"

text \<open>
  The fields of the class. \<open>discoveryInterval\<close> is the timer handle, \<open>None\<close> for
  \<open>null\<close>. \<open>emitted\<close> is a ghost field: the events handed to \<open>eventEmitter.emit\<close>,
  oldest first.
\<close>

record DeviceManager =
  devices :: "string \<rightharpoonup> Device"
  deviceStates :: "string \<rightharpoonup> DeviceState"
  discoveryInterval :: "nat option"
  emitted :: "deviceControlled list"

definition member :: "(string \<rightharpoonup> prim) \<Rightarrow> string \<Rightarrow> prim" where
  \<comment> \<open>\<open>object.key\<close>\<close>
  "member obj k = (case obj k of None \<Rightarrow> Undefined | Some v \<Rightarrow> v)"

definition set_property :: "string \<Rightarrow> prim \<Rightarrow> DeviceState \<Rightarrow> DeviceState" where
  \<comment> \<open>\<open>deviceState.properties.key = v\<close>\<close>
  "set_property k v st = st\<lparr>properties := (properties st)(k \<mapsto> v)\<rparr>"

definition getDefaultProperties :: "string \<Rightarrow> (string \<rightharpoonup> prim)" where
  "getDefaultProperties deviceType =
     (if deviceType = ''smart_light'' then
        [''brightness'' \<mapsto> Num (Fin 100), ''color'' \<mapsto> Str ''white'', ''power'' \<mapsto> Bool True]
      else if deviceType = ''thermostat'' then
        [''temperature'' \<mapsto> Num (Fin 72), ''mode'' \<mapsto> Str ''auto'', ''target'' \<mapsto> Num (Fin 72)]
      else if deviceType = ''smart_tv'' then
        [''power'' \<mapsto> Bool False, ''volume'' \<mapsto> Num (Fin 50), ''channel'' \<mapsto> Num (Fin 1)]
      else if deviceType = ''smart_speaker'' then
        [''power'' \<mapsto> Bool True, ''volume'' \<mapsto> Num (Fin 30), ''playing'' \<mapsto> Bool False]
      else Map.empty)"

definition addDevice :: "nat \<Rightarrow> Device \<Rightarrow> DeviceManager \<Rightarrow> DeviceManager" where
  \<comment> \<open>\<open>addDevice(device)\<close>; the first argument is the value of \<open>Date.now()\<close>.\<close>
  "addDevice now device m =
     m\<lparr>devices := (devices m)(device_id device \<mapsto> device),
       deviceStates := (deviceStates m)(device_id device \<mapsto>
          \<lparr>state_id = device_id device, state_status = Online, lastSeen = now,
           properties = getDefaultProperties (device_type device)\<rparr>)\<rparr>"

definition defaultDevices :: "Device list" where
  "defaultDevices =
     [\<lparr>device_id = ''living_room-light'', device_name = ''Living Room Light'',
       device_type = ''smart_light'', device_status = ''online''\<rparr>,
      \<lparr>device_id = ''bedroom-light'', device_name = ''Bedroom Light'',
       device_type = ''smart_light'', device_status = ''online''\<rparr>,
      \<lparr>device_id = ''kitchen-light'', device_name = ''Kitchen Light'',
       device_type = ''smart_light'', device_status = ''online''\<rparr>,
      \<lparr>device_id = ''main-thermostat'', device_name = ''Main Thermostat'',
       device_type = ''thermostat'', device_status = ''online''\<rparr>,
      \<lparr>device_id = ''living_room-tv'', device_name = ''Living Room TV'',
       device_type = ''smart_tv'', device_status = ''online''\<rparr>,
      \<lparr>device_id = ''kitchen-speaker'', device_name = ''Kitchen Speaker'',
       device_type = ''smart_speaker'', device_status = ''online''\<rparr>]"

definition initializeDefaultDevices :: "nat \<Rightarrow> DeviceManager \<Rightarrow> DeviceManager" where
  \<comment> \<open>The loop body of \<open>initializeDefaultDevices\<close> is that of \<open>addDevice\<close>.\<close>
  "initializeDefaultDevices now m = fold (addDevice now) defaultDevices m"

definition discoverDevices :: "(string \<Rightarrow> bool) \<Rightarrow> nat \<Rightarrow> DeviceManager \<Rightarrow> DeviceManager" where
  \<comment> \<open>One discovery pass. \<open>isOnline deviceId\<close> is the outcome of \<open>Math.random() > 0.1\<close>
     drawn for that device, \<open>now\<close> the value of \<open>Date.now()\<close>.\<close>
  "discoverDevices isOnline now m =
     m\<lparr>deviceStates := (\<lambda>deviceId.
          case deviceStates m deviceId of
            None \<Rightarrow> None
          | Some state \<Rightarrow>
              Some (state\<lparr>state_status := (if isOnline deviceId then Online else Offline),
                          lastSeen := (if isOnline deviceId then now else lastSeen state)\<rparr>))\<rparr>"

definition new_DeviceManager :: "nat \<Rightarrow> nat \<Rightarrow> (string \<Rightarrow> bool) \<Rightarrow> DeviceManager" where
  \<comment> \<open>The constructor: \<open>initializeDefaultDevices\<close>, then \<open>startDeviceDiscovery\<close>, which
     arms the timer with the configured interval and runs a first pass.\<close>
  "new_DeviceManager interval now isOnline =
     discoverDevices isOnline now
       ((initializeDefaultDevices now
           \<lparr>devices = Map.empty, deviceStates = Map.empty,
            discoveryInterval = None, emitted = []\<rparr>)
        \<lparr>discoveryInterval := Some interval\<rparr>)"

definition removeDevice :: "string \<Rightarrow> DeviceManager \<Rightarrow> bool \<times> DeviceManager" where
  "removeDevice deviceId m =
     (case devices m deviceId of
        Some device \<Rightarrow>
          (True, m\<lparr>devices := (devices m)(deviceId := None),
                   deviceStates := (deviceStates m)(deviceId := None)\<rparr>)
      | None \<Rightarrow> (False, m))"

definition destroy :: "DeviceManager \<Rightarrow> DeviceManager" where
  "destroy m =
     m\<lparr>discoveryInterval := None, devices := Map.empty, deviceStates := Map.empty\<rparr>"

definition controlLight :: "DeviceState \<Rightarrow> Command \<Rightarrow> Response \<times> DeviceState" where
  "controlLight deviceState command =
     (if action command = ''turn_on'' then
        (\<lparr>success = True, message = [T ''Light turned on'']\<rparr>,
         set_property ''brightness''
           (js_or (member (parameters command) ''brightness'') (Num (Fin 100)))
           (set_property ''power'' (Bool True) deviceState))
      else if action command = ''turn_off'' then
        (\<lparr>success = True, message = [T ''Light turned off'']\<rparr>,
         set_property ''power'' (Bool False) deviceState)
      else if action command = ''dim'' then
        let b = Num (Math_max (Fin 10)
                       (js_minus_nat (member (properties deviceState) ''brightness'') 20))
        in (\<lparr>success = True, message = [T ''Light dimmed to '', V b, T ''%'']\<rparr>,
            set_property ''brightness'' b deviceState)
      else if action command = ''brighten'' then
        let b = Num (Math_min (Fin 100)
                       (ToNumber (js_plus_nat (member (properties deviceState) ''brightness'') 20)))
        in (\<lparr>success = True, message = [T ''Light brightened to '', V b, T ''%'']\<rparr>,
            set_property ''brightness'' b deviceState)
      else if action command = ''set_brightness'' then
        let brightness = js_or (member (parameters command) ''value'') (Num (Fin 50));
            b = Num (Math_max (Fin 0) (Math_min (Fin 100) (ToNumber brightness)))
        in (\<lparr>success = True, message = [T ''Light brightness set to '', V b, T ''%'']\<rparr>,
            set_property ''brightness'' b deviceState)
      else
        (\<lparr>success = False, message = [T ''Unknown light action: '', V (Str (action command))]\<rparr>,
         deviceState))"

definition controlThermostat :: "DeviceState \<Rightarrow> Command \<Rightarrow> Response \<times> DeviceState" where
  "controlThermostat deviceState command =
     (if action command = ''set_temperature'' \<or> action command = ''set_value'' then
        let temperature = js_or (member (parameters command) ''value'')
                            (js_or (member (parameters command) ''temperature'') (Num (Fin 72)));
            t = Num (Math_max (Fin 50) (Math_min (Fin 90) (ToNumber temperature)))
        in (\<lparr>success = True, message = [T ''Thermostat set to '', V t, T [CHR 0xB0, CHR ''F'']]\<rparr>,
            set_property ''target'' t deviceState)
      else if action command = ''increase'' then
        let t = Num (Math_min (Fin 90)
                       (ToNumber (js_plus_nat (member (properties deviceState) ''target'') 2)))
        in (\<lparr>success = True,
             message = [T ''Temperature increased to '', V t, T [CHR 0xB0, CHR ''F'']]\<rparr>,
            set_property ''target'' t deviceState)
      else if action command = ''decrease'' then
        let t = Num (Math_max (Fin 50)
                       (js_minus_nat (member (properties deviceState) ''target'') 2))
        in (\<lparr>success = True,
             message = [T ''Temperature decreased to '', V t, T [CHR 0xB0, CHR ''F'']]\<rparr>,
            set_property ''target'' t deviceState)
      else
        (\<lparr>success = False,
          message = [T ''Unknown thermostat action: '', V (Str (action command))]\<rparr>,
         deviceState))"

definition controlTV :: "DeviceState \<Rightarrow> Command \<Rightarrow> Response \<times> DeviceState" where
  "controlTV deviceState command =
     (if action command = ''turn_on'' then
        (\<lparr>success = True, message = [T ''TV turned on'']\<rparr>,
         set_property ''power'' (Bool True) deviceState)
      else if action command = ''turn_off'' then
        (\<lparr>success = True, message = [T ''TV turned off'']\<rparr>,
         set_property ''power'' (Bool False) deviceState)
      else if action command = ''volume_up'' \<or> action command = ''increase'' then
        let v = Num (Math_min (Fin 100)
                       (ToNumber (js_plus_nat (member (properties deviceState) ''volume'') 5)))
        in (\<lparr>success = True, message = [T ''Volume increased to '', V v]\<rparr>,
            set_property ''volume'' v deviceState)
      else if action command = ''volume_down'' \<or> action command = ''decrease'' then
        let v = Num (Math_max (Fin 0)
                       (js_minus_nat (member (properties deviceState) ''volume'') 5))
        in (\<lparr>success = True, message = [T ''Volume decreased to '', V v]\<rparr>,
            set_property ''volume'' v deviceState)
      else
        (\<lparr>success = False, message = [T ''Unknown TV action: '', V (Str (action command))]\<rparr>,
         deviceState))"

definition controlSpeaker :: "DeviceState \<Rightarrow> Command \<Rightarrow> Response \<times> DeviceState" where
  "controlSpeaker deviceState command =
     (if action command = ''start'' \<or> action command = ''play'' then
        (\<lparr>success = True, message = [T ''Music started playing'']\<rparr>,
         set_property ''playing'' (Bool True) deviceState)
      else if action command = ''stop'' \<or> action command = ''pause'' then
        (\<lparr>success = True, message = [T ''Music stopped'']\<rparr>,
         set_property ''playing'' (Bool False) deviceState)
      else if action command = ''volume_up'' \<or> action command = ''increase'' then
        let v = Num (Math_min (Fin 100)
                       (ToNumber (js_plus_nat (member (properties deviceState) ''volume'') 10)))
        in (\<lparr>success = True, message = [T ''Volume increased to '', V v]\<rparr>,
            set_property ''volume'' v deviceState)
      else if action command = ''volume_down'' \<or> action command = ''decrease'' then
        let v = Num (Math_max (Fin 0)
                       (js_minus_nat (member (properties deviceState) ''volume'') 10))
        in (\<lparr>success = True, message = [T ''Volume decreased to '', V v]\<rparr>,
            set_property ''volume'' v deviceState)
      else
        (\<lparr>success = False,
          message = [T ''Unknown speaker action: '', V (Str (action command))]\<rparr>,
         deviceState))"

definition controlGenericDevice :: "DeviceState \<Rightarrow> Command \<Rightarrow> Response \<times> DeviceState" where
  "controlGenericDevice deviceState command =
     (if action command = ''turn_on'' then
        (\<lparr>success = True, message = [T ''Device turned on'']\<rparr>,
         set_property ''power'' (Bool True) deviceState)
      else if action command = ''turn_off'' then
        (\<lparr>success = True, message = [T ''Device turned off'']\<rparr>,
         set_property ''power'' (Bool False) deviceState)
      else
        (\<lparr>success = True,
          message = [T ''Command '', V (Str (action command)), T '' executed'']\<rparr>,
         deviceState))"

definition executeDeviceCommand ::
  "Device \<Rightarrow> Command \<Rightarrow> DeviceManager \<Rightarrow> Response \<times> DeviceManager" where
  \<comment> \<open>The handler mutates the state object stored under \<open>device.id\<close> in place.\<close>
  "executeDeviceCommand device command m =
     (case deviceStates m (device_id device) of
        None \<Rightarrow> (\<lparr>success = False, message = [T ''Device state not found'']\<rparr>, m)
      | Some deviceState \<Rightarrow>
          let (response, deviceState') =
                (if device_type device = ''smart_light'' then controlLight deviceState command
                 else if device_type device = ''thermostat'' then
                   controlThermostat deviceState command
                 else if device_type device = ''smart_tv'' then controlTV deviceState command
                 else if device_type device = ''smart_speaker'' then
                   controlSpeaker deviceState command
                 else controlGenericDevice deviceState command)
          in (response, m\<lparr>deviceStates := (deviceStates m)(device_id device \<mapsto> deviceState')\<rparr>))"

definition controlDevice ::
  "nat \<Rightarrow> string \<Rightarrow> string \<Rightarrow> parameters \<Rightarrow> DeviceManager \<Rightarrow> bool \<times> DeviceManager" where
  \<comment> \<open>\<open>controlDevice(deviceId, action, parameters)\<close>; the first argument is the value of
     \<open>Date.now()\<close>. The result is the value the promise resolves to. Nothing in the
     \<open>try\<close> block throws, and \<open>emit\<close> catches what a listener throws, so the \<open>catch\<close>
     branch has no counterpart here.\<close>
  "controlDevice now deviceId act params m =
     (case devices m deviceId of
        None \<Rightarrow> (False, m)
      | Some device \<Rightarrow>
          (case deviceStates m deviceId of
             None \<Rightarrow> (False, m)
           | Some deviceState \<Rightarrow>
               if state_status deviceState \<noteq> Online then (False, m)
               else
                 let command = \<lparr>command_id = ''cmd-'' @ decimal now, action = act,
                                parameters = params\<rparr>;
                     (response, m') = executeDeviceCommand device command m
                 in (success response,
                     m'\<lparr>emitted := emitted m' @
                        [\<lparr>event_deviceId = deviceId, event_success = success response,
                          event_message = message response\<rparr>]\<rparr>)))"

text \<open>The operations on a manager, for sequences of calls.\<close>

datatype operation =
    AddDevice nat Device
  | RemoveDevice string
  | ControlDevice nat string string parameters
  | DiscoveryTick "string \<Rightarrow> bool" nat
  | Destroy

fun run_operation :: "operation \<Rightarrow> DeviceManager \<Rightarrow> DeviceManager" where
  "run_operation (AddDevice now device) m = addDevice now device m"
| "run_operation (RemoveDevice deviceId) m = snd (removeDevice deviceId m)"
| "run_operation (ControlDevice now deviceId act params) m =
     snd (controlDevice now deviceId act params m)"
| "run_operation (DiscoveryTick isOnline now) m = discoverDevices isOnline now m"
| "run_operation Destroy m = destroy m"

definition run_operations :: "operation list \<Rightarrow> DeviceManager \<Rightarrow> DeviceManager" where
  "run_operations ops m = fold run_operation ops m"

text \<open>
  The bounds that the handlers keep, as predicates on a device state, and the calls whose
  parameters convert to numbers.
\<close>

definition brightness_in_range :: "DeviceState \<Rightarrow> bool" where
  "brightness_in_range st =
     (case properties st ''brightness'' of
        Some (Num (Fin b)) \<Rightarrow> 0 \<le> b \<and> b \<le> 100
      | _ \<Rightarrow> False)"

definition target_in_range :: "DeviceState \<Rightarrow> bool" where
  "target_in_range st =
     (case properties st ''target'' of
        Some (Num (Fin t)) \<Rightarrow> 50 \<le> t \<and> t \<le> 90
      | _ \<Rightarrow> False)"

definition converts_to_number :: "prim \<Rightarrow> bool" where
  \<comment> \<open>the value is falsy, so that \<open>||\<close> passes it over, or \<open>ToNumber\<close> of it is a
     number: every primitive value but a string that is not a numeric literal\<close>
  "converts_to_number v = (\<not> truthy v \<or> ToNumber v \<noteq> NaN)"

fun control_with_numbers :: "operation \<Rightarrow> bool" where
  \<comment> \<open>a call of \<open>controlDevice\<close> whose \<open>value\<close> and \<open>temperature\<close> convert to numbers\<close>
  "control_with_numbers (ControlDevice now deviceId act params) =
     (converts_to_number (member params ''value'')
      \<and> converts_to_number (member params ''temperature''))"
| "control_with_numbers _ = False"

definition brightness_param_in_range :: "prim \<Rightarrow> bool" where
  \<comment> \<open>a \<open>brightness\<close> parameter that is falsy, or a number within the bounds\<close>
  "brightness_param_in_range v =
     (\<not> truthy v \<or> (case v of Num (Fin b) \<Rightarrow> 0 \<le> b \<and> b \<le> 100 | _ \<Rightarrow> False))"

fun control_light_in_range :: "operation \<Rightarrow> bool" where
  \<comment> \<open>a call of \<open>controlDevice\<close> whose \<open>value\<close> converts to a number and whose
     \<open>brightness\<close> is within the bounds\<close>
  "control_light_in_range (ControlDevice now deviceId act params) =
     (converts_to_number (member params ''value'')
      \<and> brightness_param_in_range (member params ''brightness''))"
| "control_light_in_range _ = False"

definition target_kept :: "string \<Rightarrow> DeviceManager \<Rightarrow> bool" where
  \<comment> \<open>the device has a state, and its \<open>target\<close> is within the bounds\<close>
  "target_kept deviceId m =
     (case deviceStates m deviceId of None \<Rightarrow> False | Some st \<Rightarrow> target_in_range st)"

definition brightness_kept :: "string \<Rightarrow> DeviceManager \<Rightarrow> bool" where
  \<comment> \<open>the device has a state, and its \<open>brightness\<close> is within the bounds\<close>
  "brightness_kept deviceId m =
     (case deviceStates m deviceId of None \<Rightarrow> False | Some st \<Rightarrow> brightness_in_range st)"

definition property_of :: "string \<Rightarrow> string \<Rightarrow> DeviceManager \<Rightarrow> prim option" where
  \<comment> \<open>\<open>deviceStates.get(deviceId).properties[key]\<close>, when the device has a state\<close>
  "property_of deviceId key m =
     map_option (\<lambda>st. member (properties st) key) (deviceStates m deviceId)"

section \<open>Regular expressions\<close>

text \<open>
  The regular expressions of the repository, as syntax trees. All of them carry the
  \<open>i\<close> flag, so a literal matches up to case. Groups only delimit: no pattern refers back
  to a capture.
\<close>

datatype regex =
    Lit string
  | Space
  | Digit
  | Dot
  | WordB
  | Seq regex regex
  | Alt regex regex
  | Opt regex
  | Star regex
  | Plus regex

text \<open>
  A cursor is a position in the subject: the code unit before it, if any, and the rest of
  the subject from it.
\<close>

type_synonym cursor = "char option \<times> string"

fun lit_match :: "string \<Rightarrow> cursor \<Rightarrow> cursor list" where
  "lit_match [] x = [x]"
| "lit_match (c # cs) (p, []) = []"
| "lit_match (c # cs) (p, a # as) =
     (if canonicalize a = canonicalize c then lit_match cs (Some a, as) else [])"

fun class_match :: "(char \<Rightarrow> bool) \<Rightarrow> cursor \<Rightarrow> cursor list" where
  "class_match P (p, []) = []"
| "class_match P (p, a # as) = (if P a then [(Some a, as)] else [])"

definition at_word_boundary :: "cursor \<Rightarrow> bool" where
  \<comment> \<open>\<open>\\b\<close>: exactly one side of the position is a word character\<close>
  "at_word_boundary x =
     ((case fst x of None \<Rightarrow> False | Some a \<Rightarrow> is_word_char a)
      \<noteq> (case snd x of [] \<Rightarrow> False | b # _ \<Rightarrow> is_word_char b))"

fun weight :: "regex \<Rightarrow> nat" where
  \<comment> \<open>the measure of the matcher's recursion: \<open>r+\<close> is one iteration and then \<open>r*\<close>\<close>
  "weight (Seq r1 r2) = Suc (weight r1 + weight r2)"
| "weight (Alt r1 r2) = Suc (weight r1 + weight r2)"
| "weight (Opt r) = Suc (weight r)"
| "weight (Star r) = Suc (weight r)"
| "weight (Plus r) = Suc (Suc (weight r))"
| "weight _ = 0"

function rmatch :: "regex \<Rightarrow> cursor \<Rightarrow> cursor list" where
  \<comment> \<open>The backtracking matcher: every position where a match of the expression that
     starts at the cursor can end, in the order in which backtracking tries them. A
     quantifier is greedy, and gives up an iteration that consumes nothing.\<close>
  "rmatch (Lit cs) x = lit_match cs x"
| "rmatch Space x = class_match is_js_space x"
| "rmatch Digit x = class_match is_digit x"
| "rmatch Dot x = class_match (\<lambda>a. \<not> is_line_terminator a) x"
| "rmatch WordB x = (if at_word_boundary x then [x] else [])"
| "rmatch (Seq r1 r2) x = concat (map (rmatch r2) (rmatch r1 x))"
| "rmatch (Alt r1 r2) x = rmatch r1 x @ rmatch r2 x"
| "rmatch (Opt r) x = filter (\<lambda>y. length (snd y) < length (snd x)) (rmatch r x) @ [x]"
| "rmatch (Star r) x =
     concat (map (\<lambda>y. if length (snd y) < length (snd x) then rmatch (Star r) y else [])
                 (rmatch r x)) @ [x]"
| "rmatch (Plus r) x = concat (map (rmatch (Star r)) (rmatch r x))"
  by pat_completeness auto
termination
  by (relation "inv_image (less_than <*lex*> less_than)
                  (\<lambda>(r, x). (weight r, length (snd x)))")
     auto

declare rmatch.simps [simp del]

fun search :: "regex \<Rightarrow> char option \<Rightarrow> string \<Rightarrow> nat \<Rightarrow> (nat \<times> string) option" where
  \<comment> \<open>The first match at or after a position: its index and the matched text
     (\<open>match.index\<close> and \<open>match[0]\<close>). The arguments are the code unit before the
     position, the subject from the position, and the index of the position.\<close>
  "search r p s i =
     (case rmatch r (p, s) of
        y # _ \<Rightarrow> Some (i, take (length s - length (snd y)) s)
      | [] \<Rightarrow> (case s of [] \<Rightarrow> None | a # as \<Rightarrow> search r (Some a) as (Suc i)))"

declare search.simps [simp del]

definition js_match :: "regex \<Rightarrow> string \<Rightarrow> (nat \<times> string) option" where
  \<comment> \<open>\<open>string.match(regex)\<close> for a regular expression without the \<open>g\<close> flag\<close>
  "js_match r s = search r None s 0"

definition test :: "regex \<Rightarrow> string \<Rightarrow> bool" where
  \<comment> \<open>\<open>regex.test(string)\<close>\<close>
  "test r s = (js_match r s \<noteq> None)"

function exec_all :: "regex \<Rightarrow> char option \<Rightarrow> string \<Rightarrow> nat \<Rightarrow> (nat \<times> string) list option" where
  \<comment> \<open>The loop \<open>while ((match = regex.exec(text)) !== null)\<close> of a regular expression with
     the \<open>g\<close> flag, from \<open>lastIndex\<close> on: all its matches. \<open>exec\<close> leaves \<open>lastIndex\<close> at the
     end of the match, so after an empty match it finds the same match again and the loop
     never ends: the result is then \<open>None\<close>.\<close>
  "exec_all r p s i =
     (case search r p s i of
        None \<Rightarrow> Some []
      | Some (j, m) \<Rightarrow>
          if m = [] then None
          else map_option ((#) (j, m))
                 (exec_all r (Some (last m)) (drop (j - i + length m) s) (j + length m)))"
  by pat_completeness auto
termination
proof (relation "measure (\<lambda>(r, p, s, i). length s)")
  show "wf (measure (\<lambda>(r, p, s, i). length s))"
    by simp
next
  fix r :: regex and p :: "char option" and s :: string and i :: nat
    and x2 :: "nat \<times> string" and j :: nat and m :: string
  assume found: "search r p s i = Some x2" and x2: "(j, m) = x2" and m: "m \<noteq> []"
  have "s \<noteq> []"
  proof
    assume "s = []"
    with found x2 have "m = []"
      by (auto simp: search.simps split: list.splits)
    with m show False by simp
  qed
  with m show "((r, Some (last m), drop (j - i + length m) s, j + length m), (r, p, s, i))
                 \<in> measure (\<lambda>(r, p, s, i). length s)"
    by (cases m) auto
qed

declare exec_all.simps [simp del]

fun seqs :: "regex list \<Rightarrow> regex" where
  \<comment> \<open>a concatenation\<close>
  "seqs [] = Lit []"
| "seqs [r] = r"
| "seqs (r # rs) = Seq r (seqs rs)"

fun alts :: "regex list \<Rightarrow> regex" where
  \<comment> \<open>an alternation \<open>r1|r2|\<dots>\<close>\<close>
  "alts [] = Lit []"
| "alts [r] = r"
| "alts (r # rs) = Alt r (alts rs)"

section \<open>LanguageProcessing (src/src/features/performanceEnhancer.ts)\<close>

record Entity =
  entity_type :: string
  entity_value :: string
  entity_start :: nat
  entity_end :: nat
  entity_confidence :: jsnum

record Intent =
  intent_name :: string
  intent_confidence :: jsnum
  intent_entities :: "Entity list"

record ProcessingResult =
  result_intent :: string
  result_action :: string
  result_entities :: "Entity list"
  result_confidence :: jsnum
  originalText :: string

definition the_opt :: regex where
  \<comment> \<open>\<open>(?:the\\s+)?\<close>\<close>
  "the_opt = Opt (Seq (Lit ''the'') (Plus Space))"

definition whats :: regex where
  \<comment> \<open>\<open>what(?:'s|\\s+is)\<close>\<close>
  "whats = Seq (Lit ''what'') (Alt (Lit [CHR 0x27, CHR ''s'']) (Seq (Plus Space) (Lit ''is'')))"

definition intentPatterns :: "(string \<times> regex list) list" where
  \<comment> \<open>\<open>this.intentPatterns\<close> after \<open>initializePatterns\<close>, in the order of
     \<open>Object.entries\<close>\<close>
  "intentPatterns =
   [(''device_control'',
      [seqs [Lit ''turn'', Plus Space, Alt (Lit ''on'') (Lit ''off''), Plus Space, the_opt,
             Plus Dot],
       seqs [Lit ''switch'', Plus Space, Alt (Lit ''on'') (Lit ''off''), Plus Space, the_opt,
             Plus Dot],
       seqs [Alt (Lit ''dim'') (Lit ''brighten''), Plus Space, the_opt, Plus Dot],
       seqs [Lit ''set'', Plus Space, the_opt, Plus Dot, Plus Space, Lit ''to'', Plus Space,
             Plus Dot],
       seqs [Alt (Lit ''start'') (Lit ''stop''), Plus Space, the_opt, Plus Dot],
       seqs [Alt (Lit ''increase'') (Lit ''decrease''), Plus Space, the_opt, Plus Dot]]),
    (''information_request'',
      [seqs [whats, Plus Space, the_opt, Plus Dot],
       seqs [Lit ''how'', Plus Space, Plus Dot],
       seqs [Lit ''when'', Plus Space, Plus Dot],
       seqs [Lit ''where'', Plus Space, Plus Dot],
       seqs [Lit ''tell'', Plus Space, Lit ''me'', Plus Space, Lit ''about'', Plus Space,
             Plus Dot],
       seqs [Lit ''what'', Plus Space, Lit ''time'', Plus Space, Lit ''is'', Plus Space,
             Lit ''it''],
       seqs [whats, Plus Space, Lit ''the'', Plus Space, Lit ''weather'']]),
    (''system_control'',
      [alts [Lit ''stop'', Lit ''pause'', Lit ''halt''],
       alts [Lit ''resume'', Lit ''continue''],
       alts [Lit ''restart'', Lit ''reboot''],
       alts [Lit ''help'', Lit ''assist''],
       seqs [Lit ''volume'', Plus Space, Alt (Lit ''up'') (Lit ''down'')],
       seqs [Lit ''repeat'', Plus Space, Lit ''that'']]),
    (''greeting'',
      [alts [Lit ''hello'', Lit ''hi'', Lit ''hey'',
             seqs [Lit ''good'', Plus Space,
                   alts [Lit ''morning'', Lit ''afternoon'', Lit ''evening'']]]]),
    (''goodbye'',
      [alts [Lit ''goodbye'', Lit ''bye'', seqs [Lit ''see'', Plus Space, Lit ''you''],
             Lit ''farewell'']])]"

definition entityPatterns :: "(string \<times> regex) list" where
  \<comment> \<open>\<open>this.entityPatterns\<close> after \<open>initializePatterns\<close>, in the order of
     \<open>Object.entries\<close>\<close>
  "entityPatterns =
   [(''device'',
      seqs [WordB,
            alts (map Lit [''light'', ''lamp'', ''thermostat'', ''tv'', ''television'',
                           ''music'', ''speaker'', ''fan'', ''heater'']
                  @ [seqs [Lit ''air'', Star Space, Lit ''conditioner''],
                     seqs [Lit ''coffee'', Star Space, Lit ''maker'']]
                  @ map Lit [''vacuum'', ''camera'', ''lock'', ''alarm'']),
            WordB]),
    (''room'',
      seqs [WordB,
            alts ([seqs [Lit ''living'', Star Space, Lit ''room'']]
                  @ map Lit [''bedroom'', ''kitchen'', ''bathroom'']
                  @ [seqs [Lit ''dining'', Star Space, Lit ''room'']]
                  @ map Lit [''office'', ''garage'', ''basement'', ''attic'', ''hallway'',
                             ''study'']),
            WordB]),
    (''number'',
      seqs [WordB,
            alts (Plus Digit #
                  map Lit [''one'', ''two'', ''three'', ''four'', ''five'', ''six'', ''seven'',
                           ''eight'', ''nine'', ''ten'', ''eleven'', ''twelve'', ''thirteen'',
                           ''fourteen'', ''fifteen'', ''sixteen'', ''seventeen'', ''eighteen'',
                           ''nineteen'', ''twenty'', ''thirty'', ''forty'', ''fifty'',
                           ''sixty'', ''seventy'', ''eighty'', ''ninety'', ''hundred'']),
            WordB]),
    (''color'',
      seqs [WordB,
            alts (map Lit [''red'', ''blue'', ''green'', ''yellow'', ''orange'', ''purple'',
                           ''pink'', ''white'', ''black'', ''gray'', ''grey'', ''brown'']),
            WordB]),
    (''action'',
      seqs [WordB,
            alts (map Lit [''on'', ''off'', ''up'', ''down'', ''increase'', ''decrease'',
                           ''dim'', ''brighten'', ''start'', ''stop'', ''play'', ''pause'',
                           ''resume'']),
            WordB]),
    (''temperature'',
      seqs [WordB, Plus Digit, Star Space,
            Alt (Seq (Lit ''degree'') (Opt (Lit ''s''))) (Lit [CHR 0xB0]),
            Star Space,
            Opt (alts [Lit ''fahrenheit'', Lit ''celsius'', Lit ''f'', Lit ''c'']),
            WordB])]"

definition calculatePatternConfidence :: "nat \<times> string \<Rightarrow> string \<Rightarrow> jsnum" where
  \<comment> \<open>The match is \<open>(match.index, match[0])\<close>. \<open>command[match.index - 1]\<close> outside the
     string is \<open>undefined\<close>, which \<open>/\\s/\<close> does not match.\<close>
  "calculatePatternConfidence match command =
     (let matchedLength = length (snd match);
          commandLength = length command;
          coverage = js_div (Fin (of_nat matchedLength)) (Fin (of_nat commandLength));
          confidence = js_mul coverage (Fin (8 / 10));
          confidence =
            (if fst match = 0 \<or>
                (fst match - 1 < length command \<and> is_js_space (command ! (fst match - 1)))
             then js_add confidence (Fin (1 / 10)) else confidence)
      in Math_min confidence (Fin 1))"

definition unknown_intent :: Intent where
  "unknown_intent = \<lparr>intent_name = ''unknown'', intent_confidence = Fin 0, intent_entities = []\<rparr>"

definition try_pattern :: "string \<Rightarrow> string \<Rightarrow> regex \<Rightarrow> Intent \<Rightarrow> Intent" where
  \<comment> \<open>the body of the inner loop of \<open>extractIntent\<close>\<close>
  "try_pattern command intentName pattern bestMatch =
     (case js_match pattern command of
        None \<Rightarrow> bestMatch
      | Some match \<Rightarrow>
          let confidence = calculatePatternConfidence match command
          in if js_gt confidence (intent_confidence bestMatch)
             then \<lparr>intent_name = intentName, intent_confidence = confidence,
                   intent_entities = []\<rparr>
             else bestMatch)"

definition extractIntent :: "(string \<times> regex list) list \<Rightarrow> string \<Rightarrow> Intent" where
  \<comment> \<open>The first argument is \<open>this.intentPatterns\<close>.\<close>
  "extractIntent patterns command =
     fold (\<lambda>(intentName, ps) bestMatch. fold (try_pattern command intentName) ps bestMatch)
          patterns unknown_intent"

definition numberMap :: "(string \<times> nat) list" where
  "numberMap =
     [(''zero'', 0), (''one'', 1), (''two'', 2), (''three'', 3), (''four'', 4), (''five'', 5),
      (''six'', 6), (''seven'', 7), (''eight'', 8), (''nine'', 9), (''ten'', 10),
      (''eleven'', 11), (''twelve'', 12), (''thirteen'', 13), (''fourteen'', 14),
      (''fifteen'', 15), (''sixteen'', 16), (''seventeen'', 17), (''eighteen'', 18),
      (''nineteen'', 19), (''twenty'', 20), (''thirty'', 30), (''forty'', 40), (''fifty'', 50),
      (''sixty'', 60), (''seventy'', 70), (''eighty'', 80), (''ninety'', 90),
      (''hundred'', 100)]"

definition parseInt :: "string \<Rightarrow> int option" where
  \<comment> \<open>\<open>parseInt(string)\<close> without a radix: leading white space, a sign, \<open>0x\<close> for base
     16, then the longest run of digits; \<open>None\<close> is \<open>NaN\<close>.\<close>
  "parseInt input =
     (let s = dropWhile is_js_space input;
          negative = (case s of [] \<Rightarrow> False | c # _ \<Rightarrow> c = CHR ''-'');
          s = (case s of [] \<Rightarrow> [] | c # r \<Rightarrow>
                 if c = CHR ''-'' \<or> c = CHR ''+'' then r else s);
          hex = (case s of c # d # _ \<Rightarrow> c = CHR ''0'' \<and> (d = CHR ''x'' \<or> d = CHR ''X'')
                 | _ \<Rightarrow> False);
          radix = (if hex then 16 else 10);
          s = (if hex then drop 2 s else s);
          z = takeWhile (\<lambda>c. case digit_value c of None \<Rightarrow> False | Some d \<Rightarrow> d < radix) s
      in case digits_value radix z of
           None \<Rightarrow> None
         | Some n \<Rightarrow> Some (if negative then - int n else int n))"

definition int_toString :: "int \<Rightarrow> string" where
  \<comment> \<open>\<open>Number.prototype.toString\<close> on an integer. The model is exact; the source
     rounds an integer above \<open>2^53\<close> to a double and writes an exponent from \<open>10^21\<close> on.\<close>
  "int_toString i = (if i < 0 then CHR ''-'' # decimal (nat (- i)) else decimal (nat i))"

definition wordToNumber :: "string \<Rightarrow> int" where
  \<comment> \<open>\<open>numberMap[word] || parseInt(word) || 0\<close>: 0, \<open>NaN\<close> and \<open>undefined\<close> are falsy.
     The words are those that the number pattern matches; a word that names a member of
     \<open>Object.prototype\<close> is not one of them.\<close>
  "wordToNumber word =
     (case map_of numberMap word of
        Some n \<Rightarrow> if n \<noteq> 0 then int n
                  else (case parseInt word of Some i \<Rightarrow> i | None \<Rightarrow> 0)
      | None \<Rightarrow> (case parseInt word of Some i \<Rightarrow> i | None \<Rightarrow> 0))"

function replace_spaces :: "string \<Rightarrow> string" where
  \<comment> \<open>\<open>replace(/\\s+/g, '_')\<close>\<close>
  "replace_spaces [] = []"
| "replace_spaces (c # cs) =
     (if is_js_space c then CHR ''_'' # replace_spaces (dropWhile is_js_space cs)
      else c # replace_spaces cs)"
  by pat_completeness auto
termination
  by (relation "measure length") (auto simp: less_Suc_eq_le length_dropWhile_le)

definition normalizeEntityValue :: "string \<Rightarrow> string \<Rightarrow> string" where
  "normalizeEntityValue v entityType =
     (let normalized = trim (toLowerCase v)
      in if entityType = ''number'' then int_toString (wordToNumber normalized)
         else if entityType = ''device'' then replace_spaces normalized
         else if entityType = ''room'' then replace_spaces normalized
         else normalized)"

definition extractEntities :: "(string \<times> regex) list \<Rightarrow> string \<Rightarrow> Entity list option" where
  \<comment> \<open>The first argument is \<open>this.entityPatterns\<close>. \<open>None\<close>: a pattern matches the empty
     string, and the \<open>while\<close> loop never ends.\<close>
  "extractEntities patterns txt =
     fold (\<lambda>(entityType, pattern) entities.
             case entities of
               None \<Rightarrow> None
             | Some es \<Rightarrow>
                 (case exec_all pattern None txt 0 of
                    None \<Rightarrow> None
                  | Some ms \<Rightarrow>
                      Some (es @ map (\<lambda>(index, m).
                                        \<lparr>entity_type = entityType,
                                         entity_value = normalizeEntityValue m entityType,
                                         entity_start = index,
                                         entity_end = index + length m,
                                         entity_confidence = Fin (9 / 10)\<rparr>) ms)))
          patterns (Some [])"

definition determineDeviceAction :: "Entity list \<Rightarrow> string \<Rightarrow> string" where
  "determineDeviceAction entities command =
     (case find (\<lambda>e. entity_type e = ''action'') entities of
        Some actionEntity \<Rightarrow>
          let v = entity_value actionEntity
          in if v = ''on'' then ''turn_on''
             else if v = ''off'' then ''turn_off''
             else if v = ''up'' \<or> v = ''increase'' then ''increase''
             else if v = ''down'' \<or> v = ''decrease'' then ''decrease''
             else if v = ''dim'' then ''dim''
             else if v = ''brighten'' then ''brighten''
             else if v = ''start'' \<or> v = ''play'' then ''start''
             else if v = ''stop'' \<or> v = ''pause'' then ''stop''
             else v
      | None \<Rightarrow>
          if test (Alt (seqs [Lit ''turn'', Plus Space, Lit ''on''])
                       (seqs [Lit ''switch'', Plus Space, Lit ''on''])) command
          then ''turn_on''
          else if test (Alt (seqs [Lit ''turn'', Plus Space, Lit ''off''])
                            (seqs [Lit ''switch'', Plus Space, Lit ''off''])) command
          then ''turn_off''
          else if test (Lit ''dim'') command then ''dim''
          else if test (Lit ''brighten'') command then ''brighten''
          else if test (Alt (Lit ''start'') (Lit ''play'')) command then ''start''
          else if test (Alt (Lit ''stop'') (Lit ''pause'')) command then ''stop''
          else if test (seqs [Lit ''set'', Star Dot, Lit ''to'']) command then ''set_value''
          else ''control'')"

definition determineSystemAction :: "string \<Rightarrow> string" where
  "determineSystemAction command =
     (if test (alts [Lit ''stop'', Lit ''pause'', Lit ''halt'']) command then ''stop''
      else if test (Alt (Lit ''resume'') (Lit ''continue'')) command then ''resume''
      else if test (Alt (Lit ''restart'') (Lit ''reboot'')) command then ''restart''
      else if test (Alt (Lit ''help'') (Lit ''assist'')) command then ''help''
      else if test (seqs [Lit ''volume'', Plus Space, Lit ''up'']) command then ''volume_up''
      else if test (seqs [Lit ''volume'', Plus Space, Lit ''down'']) command then ''volume_down''
      else if test (Lit ''repeat'') command then ''repeat''
      else ''system_control'')"

definition determineAction :: "Intent \<Rightarrow> Entity list \<Rightarrow> string \<Rightarrow> string" where
  "determineAction intent entities command =
     (if intent_name intent = ''device_control'' then determineDeviceAction entities command
      else if intent_name intent = ''information_request'' then ''get_information''
      else if intent_name intent = ''system_control'' then determineSystemAction command
      else if intent_name intent = ''greeting'' then ''greet''
      else if intent_name intent = ''goodbye'' then ''farewell''
      else ''unknown'')"

definition processCommand_with ::
  "(string \<times> regex list) list \<Rightarrow> (string \<times> regex) list \<Rightarrow> string \<Rightarrow> ProcessingResult option"
  where
  \<comment> \<open>\<open>processCommand\<close> for given pattern tables. Nothing in the \<open>try\<close> block throws;
     \<open>None\<close> is the call that never returns.\<close>
  "processCommand_with intents entityTable command =
     (let normalizedCommand = trim (toLowerCase command);
          intent = extractIntent intents normalizedCommand
      in case extractEntities entityTable command of
           None \<Rightarrow> None
         | Some entities \<Rightarrow>
             Some \<lparr>result_intent = intent_name intent,
                   result_action = determineAction intent entities normalizedCommand,
                   result_entities = entities,
                   result_confidence = intent_confidence intent,
                   originalText = command\<rparr>)"

definition processCommand :: "string \<Rightarrow> ProcessingResult option" where
  \<comment> \<open>\<open>processCommand\<close> of a freshly constructed \<open>LanguageProcessing\<close>\<close>
  "processCommand command = processCommand_with intentPatterns entityPatterns command"

text \<open>
  Two predicates for the statements about \<open>processCommand\<close>: no pattern of an intent table
  matches a command, and a regular expression that matches no empty string.
\<close>

definition no_pattern_matches :: "(string \<times> regex list) list \<Rightarrow> string \<Rightarrow> bool" where
  "no_pattern_matches patterns command =
     list_all (\<lambda>(intentName, ps). list_all (\<lambda>p. js_match p command = None) ps) patterns"

fun consuming :: "regex \<Rightarrow> bool" where
  "consuming (Lit cs) = (cs \<noteq> [])"
| "consuming Space = True"
| "consuming Digit = True"
| "consuming Dot = True"
| "consuming WordB = False"
| "consuming (Seq r1 r2) = (consuming r1 \<or> consuming r2)"
| "consuming (Alt r1 r2) = (consuming r1 \<and> consuming r2)"
| "consuming (Opt r) = False"
| "consuming (Star r) = False"
| "consuming (Plus r) = consuming r"

section \<open>ConfigManager (src/src/main.ts)\<close>

text \<open>
  The configuration is a tree of plain objects and arrays over the primitive values. A
  plain object is the list of its own enumerable members in the order of enumeration, with
  distinct keys; its prototype is \<open>Object.prototype\<close>. The number \<open>-0\<close> is a value of its
  own here: \<^typ>\<open>jsnum\<close> has one zero, which stands for \<open>+0\<close> in a configuration.
\<close>

datatype jsval = Prim prim | NegZero | Arr "jsval list" | Obj "(string \<times> jsval) list"

fun truthy_val :: "jsval \<Rightarrow> bool" where
  "truthy_val (Prim p) = truthy p"
| "truthy_val NegZero = False"
| "truthy_val _ = True"

text \<open>
  Every value but \<open>undefined\<close> and \<open>null\<close> inherits members from built-in prototypes:
  those of \<open>Object.prototype\<close>, and before them those of \<open>Array.prototype\<close>,
  \<open>String.prototype\<close>, \<open>Number.prototype\<close> or \<open>Boolean.prototype\<close>. A realm gives, for
  each kind of value, the enumerable members that a value of the kind inherits, in the
  order of enumeration, each key once. A fresh realm has none;
  \<open>set('__proto__.x', 1)\<close> adds a member \<open>x\<close> to \<open>Object.prototype\<close>, and so to every
  kind. The model has the inherited members that are primitive values.
\<close>

datatype kind = OfObject | OfArray | OfString | OfNumber | OfBoolean

type_synonym realm = "kind \<Rightarrow> (string \<times> prim) list"

definition fresh_realm :: realm where
  "fresh_realm = (\<lambda>k. [])"

fun kind_of :: "jsval \<Rightarrow> kind option" where
  \<comment> \<open>\<open>None\<close>: \<open>undefined\<close> and \<open>null\<close>, which have no members\<close>
  "kind_of (Prim Undefined) = None"
| "kind_of (Prim Null) = None"
| "kind_of (Prim (Bool b)) = Some OfBoolean"
| "kind_of (Prim (Num n)) = Some OfNumber"
| "kind_of (Prim (Str s)) = Some OfString"
| "kind_of NegZero = Some OfNumber"
| "kind_of (Arr xs) = Some OfArray"
| "kind_of (Obj kvs) = Some OfObject"

fun own_entries :: "jsval \<Rightarrow> (string \<times> jsval) list" where
  \<comment> \<open>the own enumerable members: what \<open>{...v}\<close> copies\<close>
  "own_entries (Obj kvs) = kvs"
| "own_entries (Arr xs) = zip (map decimal [0..<length xs]) xs"
| "own_entries (Prim (Str s)) = zip (map decimal [0..<length s]) (map (\<lambda>c. Prim (Str [c])) s)"
| "own_entries _ = []"

fun own_length :: "jsval \<Rightarrow> nat option" where
  \<comment> \<open>the own member \<open>length\<close> of an array or a string, which is not enumerable\<close>
  "own_length (Arr xs) = Some (length xs)"
| "own_length (Prim (Str s)) = Some (length s)"
| "own_length _ = None"

definition own_names :: "jsval \<Rightarrow> string list" where
  \<comment> \<open>the names of the own members, enumerable or not\<close>
  "own_names v =
     map fst (own_entries v) @ (case own_length v of None \<Rightarrow> [] | Some n \<Rightarrow> [''length''])"

definition for_in :: "realm \<Rightarrow> jsval \<Rightarrow> (string \<times> jsval) list" where
  \<comment> \<open>The keys that \<open>for (const key in v)\<close> visits, each with \<open>v[key]\<close>: the own enumerable
     members, then the inherited ones that no own member hides. The loop visits nothing
     for \<open>undefined\<close> and \<open>null\<close>.\<close>
  "for_in realm v =
     (case kind_of v of
        None \<Rightarrow> []
      | Some k \<Rightarrow>
          own_entries v
          @ map (\<lambda>(key, p). (key, Prim p))
              (filter (\<lambda>(key, p). key \<notin> set (own_names v)) (realm k)))"

text \<open>
  A call returns a value or throws. The third outcome is the call that leaves the model:
  it reads a member of a built-in object (a function such as \<open>toString\<close>, or the prototype
  itself under \<open>__proto__\<close>), or it gives an object another prototype. The call stack of
  the model has no bound.
\<close>

datatype js_error = Error string | TypeError

datatype 'a completion = Returns 'a | Throws js_error | Unmodelled

definition object_prototype_names :: "string list" where
  \<comment> \<open>the members that the language defines on \<open>Object.prototype\<close>, none of them
     enumerable\<close>
  "object_prototype_names =
     [''constructor'', ''hasOwnProperty'', ''isPrototypeOf'', ''propertyIsEnumerable'',
      ''toLocaleString'', ''toString'', ''valueOf'', ''__proto__'', ''__defineGetter__'',
      ''__defineSetter__'', ''__lookupGetter__'', ''__lookupSetter__'']"

definition get_member :: "realm \<Rightarrow> jsval \<Rightarrow> string \<Rightarrow> jsval completion" where
  \<comment> \<open>\<open>v[key]\<close>: an own member, else an inherited enumerable one, else \<open>undefined\<close>.
     Reading a member of \<open>undefined\<close> or \<open>null\<close> throws a \<open>TypeError\<close>. The members of
     the other built-in prototypes depend on the version of the language: a key that a
     value other than a plain object neither owns nor inherits from the realm is left to
     the third outcome.\<close>
  "get_member realm v key =
     (case kind_of v of
        None \<Rightarrow> Throws TypeError
      | Some k \<Rightarrow>
          (case map_of (own_entries v) key of
             Some x \<Rightarrow> Returns x
           | None \<Rightarrow>
               (case (if key = ''length'' then own_length v else None) of
                  Some n \<Rightarrow> Returns (Prim (Num (Fin (of_nat n))))
                | None \<Rightarrow>
                    (case map_of (realm k) key of
                       Some p \<Rightarrow> Returns (Prim p)
                     | None \<Rightarrow>
                         if k = OfObject \<and> key \<notin> set object_prototype_names
                         then Returns (Prim Undefined) else Unmodelled))))"

definition array_index :: "string \<Rightarrow> nat option" where
  \<comment> \<open>the key is an array index: the canonical decimal numeral of a number below
     \<open>2^32 - 1\<close>\<close>
  "array_index key =
     (case digits_value 10 key of
        None \<Rightarrow> None
      | Some n \<Rightarrow>
          if (key = ''0'' \<or> hd key \<noteq> CHR ''0'') \<and> int n < 4294967295 then Some n else None)"

definition goes_before :: "string \<Rightarrow> string \<Rightarrow> bool" where
  \<comment> \<open>the order of enumeration of a new key and an existing one: array indices first, in
     ascending order, then the other keys in the order of their creation\<close>
  "goes_before key k =
     (case array_index key of
        None \<Rightarrow> False
      | Some n \<Rightarrow> (case array_index k of None \<Rightarrow> True | Some m \<Rightarrow> n < m))"

fun insert_member :: "string \<Rightarrow> jsval \<Rightarrow> (string \<times> jsval) list \<Rightarrow> (string \<times> jsval) list" where
  \<comment> \<open>a new own member, at its place in the order of enumeration\<close>
  "insert_member key v [] = [(key, v)]"
| "insert_member key v ((k, x) # kvs) =
     (if goes_before key k then (key, v) # (k, x) # kvs else (k, x) # insert_member key v kvs)"

fun replace_member :: "string \<Rightarrow> jsval \<Rightarrow> (string \<times> jsval) list \<Rightarrow> (string \<times> jsval) list" where
  \<comment> \<open>a new value for an own member, which keeps its place\<close>
  "replace_member key v [] = []"
| "replace_member key v ((k, x) # kvs) =
     (if k = key then (k, v) # kvs else (k, x) # replace_member key v kvs)"

definition assign ::
  "string \<Rightarrow> jsval \<Rightarrow> (string \<times> jsval) list \<Rightarrow> (string \<times> jsval) list completion" where
  \<comment> \<open>\<open>result[key] = v\<close> on the members of a plain object. Where \<open>__proto__\<close> is not an
     own member, the assignment reaches the setter of \<open>Object.prototype\<close>: an object or
     \<open>null\<close> becomes the prototype of \<open>result\<close>, any other value is ignored.\<close>
  "assign key v result =
     (if key \<in> set (map fst result) then Returns (replace_member key v result)
      else if key = ''__proto__'' then
        (case v of
           Obj _ \<Rightarrow> Unmodelled
         | Arr _ \<Rightarrow> Unmodelled
         | Prim Null \<Rightarrow> Unmodelled
         | _ \<Rightarrow> Returns result)
      else Returns (insert_member key v result))"

function deepMerge :: "realm \<Rightarrow> jsval \<Rightarrow> jsval \<Rightarrow> jsval completion" where
  \<comment> \<open>The accumulator of the fold is \<open>result\<close>, which starts as \<open>{ ...target }\<close>. The test
     \<open>source[key] && typeof source[key] === 'object' && !Array.isArray(source[key])\<close>
     holds of the plain objects.\<close>
  "deepMerge realm target source =
     (case fold (\<lambda>(key, sv) acc.
                   case acc of
                     Returns result \<Rightarrow>
                       (case sv of
                          Obj members \<Rightarrow>
                            (case get_member realm target key of
                               Returns t \<Rightarrow>
                                 (case deepMerge realm (if truthy_val t then t else Obj []) sv of
                                    Returns merged \<Rightarrow> assign key merged result
                                  | Throws err \<Rightarrow> Throws err
                                  | Unmodelled \<Rightarrow> Unmodelled)
                             | Throws err \<Rightarrow> Throws err
                             | Unmodelled \<Rightarrow> Unmodelled)
                        | _ \<Rightarrow> assign key sv result)
                   | Throws err \<Rightarrow> Throws err
                   | Unmodelled \<Rightarrow> Unmodelled)
                (for_in realm source) (Returns (own_entries target)) of
        Returns result \<Rightarrow> Returns (Obj result)
      | Throws err \<Rightarrow> Throws err
      | Unmodelled \<Rightarrow> Unmodelled)"
  by pat_completeness auto
termination
proof (relation "measure (\<lambda>(realm, target, source). size source)")
  show "wf (measure (\<lambda>(realm, target, source). size source))"
    by simp
next
  fix realm :: realm and target source t sv :: jsval and x :: "string \<times> jsval"
    and key :: string and members :: "(string \<times> jsval) list"
  assume "x \<in> set (for_in realm source)" and "(key, sv) = x" and "sv = Obj members"
  then have "(key, Obj members) \<in> set (own_entries source)"
    by (auto simp: for_in_def split: option.splits)
  then have "size (Obj members) < size source"
  proof (cases source rule: own_entries.cases)
    case (1 kvs)
    assume "(key, Obj members) \<in> set (own_entries source)"
    with 1 have "(key, Obj members) \<in> set kvs"
      by simp
    then have "size (Obj members) < Suc (size_list (size_prod (\<lambda>_. 0) size) kvs)"
      by (induction kvs) auto
    with 1 show ?thesis by simp
  next
    case (2 xs)
    assume "(key, Obj members) \<in> set (own_entries source)"
    with 2 have "Obj members \<in> set xs"
      by (auto dest: set_zip_rightD)
    then have "size (Obj members) < Suc (size_list size xs)"
      by (induction xs) auto
    with 2 show ?thesis by simp
  next
    case (3 s)
    assume "(key, Obj members) \<in> set (own_entries source)"
    with 3 show ?thesis
      by (auto dest: set_zip_rightD)
  qed simp_all
  with \<open>sv = Obj members\<close>
  show "((realm, if truthy_val t then t else Obj [], sv), realm, target, source)
          \<in> measure (\<lambda>(realm, target, source). size source)"
    by simp
qed

declare deepMerge.simps [simp del]

text \<open>
  \<open>JSON.stringify\<close> and \<open>JSON.parse\<close> belong to the host. A text is modelled by what
  \<open>JSON.parse\<close> makes of it: the value it denotes, or a syntax error. A text denotes
  \<open>null\<close>, a boolean, a number (\<open>-0\<close> and, by overflow, an infinity among them), a string,
  an array or a plain object of such values.
  \<open>json_of\<close> is the value that the text of \<open>JSON.stringify\<close> denotes: \<open>None\<close> where it writes
  nothing (\<open>undefined\<close>), \<open>null\<close> for \<open>NaN\<close>, the infinities and an \<open>undefined\<close> array
  element, \<open>0\<close> for \<open>-0\<close>; a member whose value is \<open>undefined\<close> is left out, and so are the
  inherited members.
\<close>

datatype json_text = Document jsval | Malformed string

fun json_of :: "jsval \<Rightarrow> jsval option" where
  "json_of (Prim Undefined) = None"
| "json_of (Prim (Num n)) = Some (Prim (case n of Fin r \<Rightarrow> Num (Fin r) | _ \<Rightarrow> Null))"
| "json_of (Prim p) = Some (Prim p)"
| "json_of NegZero = Some (Prim (Num (Fin 0)))"
| "json_of (Arr xs) =
     Some (Arr (map (\<lambda>x. case json_of x of None \<Rightarrow> Prim Null | Some j \<Rightarrow> j) xs))"
| "json_of (Obj kvs) =
     Some (Obj (concat (map (\<lambda>(k, v). case json_of v of None \<Rightarrow> [] | Some j \<Rightarrow> [(k, j)])
                            kvs)))"

definition JSON_stringify :: "jsval \<Rightarrow> json_text option" where
  "JSON_stringify v = map_option Document (json_of v)"

fun JSON_parse :: "json_text \<Rightarrow> jsval option" where
  \<comment> \<open>\<open>None\<close>: \<open>JSON.parse\<close> throws a \<open>SyntaxError\<close>\<close>
  "JSON_parse (Document v) = Some v"
| "JSON_parse (Malformed s) = None"

record ConfigManager =
  config :: jsval

definition defaultConfig :: jsval where
  "defaultConfig =
     Obj [(''speechRecognition'',
             Obj [(''continuous'', Prim (Bool True)),
                  (''interimResults'', Prim (Bool False)),
                  (''language'', Prim (Str ''en-US'')),
                  (''maxAlternatives'', Prim (Num (Fin 1))),
                  (''autoRestart'', Prim (Bool True))]),
          (''speechSynthesis'',
             Obj [(''defaultLanguage'', Prim (Str ''en-US'')),
                  (''rate'', Prim (Num (Fin 1))),
                  (''pitch'', Prim (Num (Fin 1))),
                  (''volume'', Prim (Num (Fin 1)))]),
          (''deviceManager'',
             Obj [(''discoveryInterval'', Prim (Num (Fin 30000))),
                  (''connectionTimeout'', Prim (Num (Fin 5000))),
                  (''retryAttempts'', Prim (Num (Fin 3)))]),
          (''minConfidence'', Prim (Num (Fin (7 / 10)))),
          (''logLevel'', Prim (Str ''INFO''))]"

definition reset :: "ConfigManager \<Rightarrow> ConfigManager" where
  \<comment> \<open>\<open>this.config = { ...this.defaultConfig }\<close>\<close>
  "reset c = c\<lparr>config := Obj (own_entries defaultConfig)\<rparr>"

definition update :: "realm \<Rightarrow> jsval \<Rightarrow> ConfigManager \<Rightarrow> ConfigManager completion" where
  \<comment> \<open>\<open>this.config = this.deepMerge(this.config, newConfig)\<close>, in a realm\<close>
  "update realm newConfig c =
     (case deepMerge realm (config c) newConfig of
        Returns merged \<Rightarrow> Returns (c\<lparr>config := merged\<rparr>)
      | Throws err \<Rightarrow> Throws err
      | Unmodelled \<Rightarrow> Unmodelled)"

definition export :: "ConfigManager \<Rightarrow> json_text option" where
  \<comment> \<open>\<open>JSON.stringify(this.config, null, 2)\<close>\<close>
  "export c = JSON_stringify (config c)"

definition import' ::
  "realm \<Rightarrow> json_text \<Rightarrow> ConfigManager \<Rightarrow> unit completion \<times> ConfigManager" where
  \<comment> \<open>\<open>import(configJson)\<close>: the outcome, and the manager afterwards. The \<open>catch\<close>
     block replaces whatever \<open>JSON.parse\<close> or \<open>update\<close> throws.\<close>
  "import' realm configJson c =
     (case JSON_parse configJson of
        None \<Rightarrow> (Throws (Error ''Invalid configuration JSON''), c)
      | Some importedConfig \<Rightarrow>
          (case update realm importedConfig c of
             Returns c' \<Rightarrow> (Returns (), c')
           | Throws err \<Rightarrow> (Throws (Error ''Invalid configuration JSON''), c)
           | Unmodelled \<Rightarrow> (Unmodelled, c)))"


section \<open>EventEmitter (src/unnamed/part\_006)\<close>

text \<open>
  A listener is a function object, and \<open>indexOf\<close> compares function objects by identity.
  \<open>Callback n\<close> is the function object of identity \<open>n\<close> that the caller passes to \<open>on\<close>
  or \<open>once\<close>. \<open>OnceCallback k event callback\<close> is the closure \<open>onceCallback\<close> that the
  \<open>k\<close>-th allocation of the emitter creates in \<open>once(event, callback)\<close>.
\<close>

datatype fn = Callback nat | OnceCallback nat string fn

text \<open>
  \<open>events\<close> is the field of the class: a \<open>Map\<close> from an event to an array object. Arrays
  are mutable objects, so the map holds their addresses and \<open>arrays\<close> their contents;
  \<open>fresh\<close> is the next address or closure identity. \<open>world\<close> is the state outside the
  emitter.
\<close>

type_synonym addr = nat

record 'w EventEmitter =
  events :: "string \<rightharpoonup> addr"
  arrays :: "addr \<Rightarrow> fn list"
  fresh :: nat
  world :: 'w

text \<open>
  The code of the function objects: what calling the function object of identity \<open>n\<close>
  with a payload does to the emitter and to the state outside, and the exception it
  throws, if any. A callback can do to the emitter whatever a sequence of calls of its
  methods does; what a nested \<open>emit\<close> calls is part of what the callback does. A
  callback returns or throws.
\<close>

type_synonym ('d, 'w) code =
  "nat \<Rightarrow> 'd \<Rightarrow> 'w EventEmitter \<Rightarrow> js_error option \<times> 'w EventEmitter"

definition new_EventEmitter :: "'w \<Rightarrow> 'w EventEmitter" where
  \<comment> \<open>the constructor, in an outside state\<close>
  "new_EventEmitter w = \<lparr>events = Map.empty, arrays = (\<lambda>a. []), fresh = 0, world = w\<rparr>"

definition on :: "string \<Rightarrow> fn \<Rightarrow> 'w EventEmitter \<Rightarrow> 'w EventEmitter" where
  "on event callback e =
     (case events e event of
        None \<Rightarrow>
          e\<lparr>events := (events e)(event \<mapsto> fresh e),
            arrays := (arrays e)(fresh e := [callback]),
            fresh := Suc (fresh e)\<rparr>
      | Some a \<Rightarrow> e\<lparr>arrays := (arrays e)(a := arrays e a @ [callback])\<rparr>)"

definition off :: "string \<Rightarrow> fn \<Rightarrow> 'w EventEmitter \<Rightarrow> 'w EventEmitter" where
  \<comment> \<open>\<open>index = callbacks.indexOf(callback); if (index > -1) callbacks.splice(index, 1)\<close>
     removes the first occurrence\<close>
  "off event callback e =
     (case events e event of
        None \<Rightarrow> e
      | Some a \<Rightarrow> e\<lparr>arrays := (arrays e)(a := remove1 callback (arrays e a))\<rparr>)"

definition once :: "string \<Rightarrow> fn \<Rightarrow> 'w EventEmitter \<Rightarrow> 'w EventEmitter" where
  "once event callback e =
     on event (OnceCallback (fresh e) event callback) (e\<lparr>fresh := Suc (fresh e)\<rparr>)"

definition removeAllListeners :: "string option \<Rightarrow> 'w EventEmitter \<Rightarrow> 'w EventEmitter" where
  \<comment> \<open>\<open>None\<close> is the call without an argument; the empty string is falsy.\<close>
  "removeAllListeners event e =
     (case event of
        Some name \<Rightarrow>
          if name \<noteq> [] then e\<lparr>events := (events e)(name := None)\<rparr>
          else e\<lparr>events := Map.empty\<rparr>
      | None \<Rightarrow> e\<lparr>events := Map.empty\<rparr>)"


fun call ::
  "('d, 'w) code \<Rightarrow> fn \<Rightarrow> 'd \<Rightarrow> 'w EventEmitter \<Rightarrow> js_error option \<times> 'w EventEmitter" where
  \<comment> \<open>\<open>callback(data)\<close>. The closure of \<open>once\<close> is
     \<open>(data) => { callback(data); this.off(event, onceCallback); }\<close>: it does not reach
     \<open>this.off\<close> when the callback throws.\<close>
  "call code (Callback n) data e = code n data e"
| "call code (OnceCallback k event callback) data e =
     (case call code callback data e of
        (Some err, e') \<Rightarrow> (Some err, e')
      | (None, e') \<Rightarrow> (None, off event (OnceCallback k event callback) e'))"

text \<open>
  A run of \<open>emit\<close>: the emitter and the state outside, and two ghost fields, the
  exceptions that \<open>console.error\<close> reported with their event, and the function objects
  that \<open>forEach\<close> called, oldest first.
\<close>

record 'w delivery =
  emitter :: "'w EventEmitter"
  console :: "(string \<times> js_error) list"
  calls :: "fn list"

definition guarded_call ::
  "('d, 'w) code \<Rightarrow> string \<Rightarrow> 'd \<Rightarrow> fn \<Rightarrow> 'w delivery \<Rightarrow> (js_error + unit) \<times> 'w delivery" where
  \<comment> \<open>the arrow function that \<open>emit\<close> passes to \<open>forEach\<close>:
     \<open>try { callback(data) } catch (error) { console.error(\<dots>) }\<close>\<close>
  "guarded_call code event data callback r =
     (case call code callback data (emitter r) of
        (Some err, e') \<Rightarrow>
          (Inr (), \<lparr>emitter = e', console = console r @ [(event, err)],
                    calls = calls r @ [callback]\<rparr>)
      | (None, e') \<Rightarrow>
          (Inr (), \<lparr>emitter = e', console = console r, calls = calls r @ [callback]\<rparr>))"

function forEach ::
  "(fn \<Rightarrow> 'w delivery \<Rightarrow> (js_error + unit) \<times> 'w delivery)
     \<Rightarrow> addr \<Rightarrow> nat \<Rightarrow> nat \<Rightarrow> 'w delivery \<Rightarrow> (js_error + unit) \<times> 'w delivery" where
  \<comment> \<open>\<open>Array.prototype.forEach\<close> on the array at an address, from index \<open>k\<close> up to the
     length \<open>len\<close> that the array had when the call began. The array is read again at
     every index: an index that the array no longer has is passed over. An exception of
     the function ends the loop and is the result.\<close>
  "forEach f a k len r =
     (if k < len then
        (let callbacks = arrays (emitter r) a
         in if k < length callbacks then
              (case f (callbacks ! k) r of
                 (Inl err, r') \<Rightarrow> (Inl err, r')
               | (Inr u, r') \<Rightarrow> forEach f a (Suc k) len r')
            else forEach f a (Suc k) len r)
      else (Inr (), r))"
  by pat_completeness auto
termination
  by (relation "measure (\<lambda>(f, a, k, len, r). len - k)") auto

declare forEach.simps [simp del]

definition emit ::
  "('d, 'w) code \<Rightarrow> string \<Rightarrow> 'd \<Rightarrow> 'w EventEmitter \<Rightarrow> (js_error + unit) \<times> 'w delivery" where
  \<comment> \<open>\<open>emit(event, data)\<close>: \<open>Inl\<close> is an exception that leaves \<open>emit\<close>. The array is the
     one that the map holds when the call begins.\<close>
  "emit code event data e =
     (case events e event of
        None \<Rightarrow> (Inr (), \<lparr>emitter = e, console = [], calls = []\<rparr>)
      | Some a \<Rightarrow>
          forEach (guarded_call code event data) a 0 (length (arrays e a))
            \<lparr>emitter = e, console = [], calls = []\<rparr>)"

chapter \<open>Properties\<close>

section \<open>Character classes\<close>

text \<open>
  The character classes, read on the code of the character.
\<close>

lemma is_js_space_codes:
  "is_js_space c \<longleftrightarrow> (of_char c :: nat) \<in> {9, 10, 11, 12, 13, 32, 160}"
  by (cases c) (auto simp: of_bool_def split: if_splits)

lemma is_digit_codes: "is_digit c \<longleftrightarrow> (of_char c :: nat) \<in> {48..57}"
  by (cases c) (auto simp: of_bool_def split: if_splits)

lemma is_word_char_codes:
  "is_word_char c \<longleftrightarrow> (of_char c :: nat) \<in> {48..57} \<union> {65..90} \<union> {95} \<union> {97..122}"
  by (cases c) (auto simp: letter_index_def of_bool_def split: if_splits)

lemma is_line_terminator_codes:
  "is_line_terminator c \<longleftrightarrow> (of_char c :: nat) \<in> {10, 13}"
  by (cases c) (auto simp: of_bool_def split: if_splits)

lemma toLowerCase_char_code:
  "(of_char (toLowerCase_char c) :: nat) =
     (if (of_char c :: nat) \<in> {65..90} \<union> ({192..222} - {215}) then of_char c + 32
      else of_char c)"
  by (cases c) (auto simp: letter_index_def latin1_letter_index_def of_bool_def split: if_splits)

lemma canonicalize_code:
  "(of_char (canonicalize c) :: nat) =
     (if (of_char c :: nat) \<in> {97..122} \<union> ({224..254} - {247}) then of_char c - 32
      else of_char c)"
  by (cases c) (auto simp: letter_index_def latin1_letter_index_def of_bool_def split: if_splits)

section \<open>SpeechSynthesis: the priority queue\<close>

lemma insert_at_findIndex:
  "(case findIndex P q of None \<Rightarrow> q @ [r] | Some i \<Rightarrow> take i q @ r # drop i q)
     = takeWhile (\<lambda>x. \<not> P x) q @ r # dropWhile (\<lambda>x. \<not> P x) q"
proof (induction q)
  case Nil
  show ?case by simp
next
  case (Cons a q)
  then show ?case
    by (cases "findIndex P q") auto
qed

lemma speak_while_playing:
  assumes "isPlaying s" and "trim txt \<noteq> []"
  shows "speak txt lang prio s =
           s\<lparr>speechQueue :=
                takeWhile (\<lambda>item. \<not> priority_or_1 item < prio) (speechQueue s)
                @ new_request txt lang prio s
                # dropWhile (\<lambda>item. \<not> priority_or_1 item < prio) (speechQueue s)\<rparr>"
proof -
  have "speak txt lang prio s =
          processQueue (s\<lparr>speechQueue :=
             (case findIndex (\<lambda>item. priority_or_1 item < prio) (speechQueue s) of
                None \<Rightarrow> speechQueue s @ [new_request txt lang prio s]
              | Some i \<Rightarrow> take i (speechQueue s) @ new_request txt lang prio s
                           # drop i (speechQueue s))\<rparr>)"
    using assms(2) by (simp add: speak_def Let_def split: option.split)
  also have "\<dots> = s\<lparr>speechQueue :=
             (case findIndex (\<lambda>item. priority_or_1 item < prio) (speechQueue s) of
                None \<Rightarrow> speechQueue s @ [new_request txt lang prio s]
              | Some i \<Rightarrow> take i (speechQueue s) @ new_request txt lang prio s
                           # drop i (speechQueue s))\<rparr>"
    using assms(1) by (simp add: processQueue_def)
  finally show ?thesis
    by (simp only: insert_at_findIndex)
qed

lemma drain_spoken: "spoken (drain s) = spoken s @ speechQueue s"
proof (induction s rule: drain.induct)
  case (1 s)
  show ?case
  proof (cases "speechQueue s = []")
    case True
    then show ?thesis
      by (subst drain.simps) (simp add: utterance_settled_def)
  next
    case False
    then have "spoken (drain s) = spoken (drain (processQueue (utterance_settled s)))"
      by (subst drain.simps) (simp add: utterance_settled_def Let_def)
    also have "\<dots> = spoken (processQueue (utterance_settled s))
                     @ speechQueue (processQueue (utterance_settled s))"
      using False by (intro "1.IH") (simp_all add: utterance_settled_def)
    also have "\<dots> = spoken s @ speechQueue s"
      using False by (simp add: processQueue_def utterance_settled_def)
    finally show ?thesis .
  qed
qed

lemma takeWhile_dropWhile_past:
  assumes "P r"
  shows "takeWhile (\<lambda>x. \<not> P x) (xs @ r # ys) = takeWhile (\<lambda>x. \<not> P x) xs"
    and "dropWhile (\<lambda>x. \<not> P x) (xs @ r # ys) = dropWhile (\<lambda>x. \<not> P x) xs @ r # ys"
  using assms by (induction xs) auto

lemma sorted_insert_desc:
  fixes q :: "SpeechRequest list"
  assumes "sorted_wrt (\<lambda>a b. priority b \<le> priority a) q"
  shows "takeWhile (\<lambda>i. \<not> priority i < p) q = filter (\<lambda>i. p \<le> priority i) q
       \<and> dropWhile (\<lambda>i. \<not> priority i < p) q = filter (\<lambda>i. priority i < p) q"
  using assms
proof (induction q)
  case Nil
  show ?case by simp
next
  case (Cons a q)
  show ?case
  proof (cases "priority a < p")
    case True
    with Cons.prems have below: "\<forall>x \<in> set q. priority x < p"
      by auto
    then have "filter (\<lambda>i. p \<le> priority i) q = []"
      by (auto simp: filter_empty_conv)
    moreover from below have "filter (\<lambda>i. priority i < p) q = q"
      by (auto simp: filter_id_conv)
    ultimately show ?thesis
      using True by simp
  next
    case False
    with Cons show ?thesis by simp
  qed
qed

lemma sorted_wrt_insert_desc:
  fixes q :: "SpeechRequest list"
  assumes "sorted_wrt (\<lambda>a b. priority b \<le> priority a) q" and "priority r = p"
  shows "sorted_wrt (\<lambda>a b. priority b \<le> priority a)
           (filter (\<lambda>i. p \<le> priority i) q @ r # filter (\<lambda>i. priority i < p) q)"
  using assms by (auto simp: sorted_wrt_append sorted_wrt_filter)


lemma priority_or_1_nonzero: "priority i \<noteq> 0 \<Longrightarrow> priority_or_1 i = priority i"
  by (simp add: priority_or_1_def)

text \<open>
  Claim C1, amended. While an utterance is playing, \<open>speak\<close> only enqueues. Then, for texts
  that are not blank: two requests of priorities \<open>p1 > p2\<close>, \<open>p2\<close> not 0, enqueued in the
  order \<open>p2\<close>, \<open>p1\<close>, enter the queue with the one of priority \<open>p1\<close> in front, and are
  dequeued in that order; \<open>speak\<close> inserts the request before the first queued request
  whose priority, read as 1 when it is 0, is strictly lower; and a queue without a
  priority 0 that is sorted by descending priority stays so, the new request going behind
  every queued request of the same or a higher priority.
\<close>

theorem speech_queue_priority_order:
  assumes playing: "isPlaying s" and t1: "trim t1 \<noteq> []" and t2: "trim t2 \<noteq> []"
  shows
    "(p2 < p1 \<and> p2 \<noteq> 0 \<longrightarrow>
        (\<exists>A B C. speechQueue s = A @ B @ C
           \<and> speechQueue (speak t1 l1 p1 (speak t2 l2 p2 s))
               = A @ new_request t1 l1 p1 s # B @ new_request t2 l2 p2 s # C
           \<and> spoken (drain (speak t1 l1 p1 (speak t2 l2 p2 s)))
               = spoken s @ A @ new_request t1 l1 p1 s # B @ new_request t2 l2 p2 s # C))
     \<and> speechQueue (speak t1 l1 p1 s)
         = takeWhile (\<lambda>item. \<not> priority_or_1 item < p1) (speechQueue s)
           @ new_request t1 l1 p1 s
           # dropWhile (\<lambda>item. \<not> priority_or_1 item < p1) (speechQueue s)
     \<and> ((\<forall>item \<in> set (speechQueue s). priority item \<noteq> 0)
          \<and> sorted_wrt (\<lambda>a b. priority b \<le> priority a) (speechQueue s) \<longrightarrow>
        speechQueue (speak t1 l1 p1 s)
          = filter (\<lambda>item. p1 \<le> priority item) (speechQueue s)
            @ new_request t1 l1 p1 s
            # filter (\<lambda>item. priority item < p1) (speechQueue s)
        \<and> sorted_wrt (\<lambda>a b. priority b \<le> priority a) (speechQueue (speak t1 l1 p1 s)))"
proof (intro conjI impI)
  assume "p2 < p1 \<and> p2 \<noteq> 0"
  then have lower: "priority_or_1 (new_request t2 l2 p2 s) < p1"
    by (simp add: priority_or_1_def new_request_def)
  let ?X = "takeWhile (\<lambda>item. \<not> priority_or_1 item < p2) (speechQueue s)"
  let ?Y = "dropWhile (\<lambda>item. \<not> priority_or_1 item < p2) (speechQueue s)"
  let ?A = "takeWhile (\<lambda>item. \<not> priority_or_1 item < p1) ?X"
  let ?B = "dropWhile (\<lambda>item. \<not> priority_or_1 item < p1) ?X"
  let ?s2 = "speak t2 l2 p2 s"
  have s2: "?s2 = s\<lparr>speechQueue := ?X @ new_request t2 l2 p2 s # ?Y\<rparr>"
    using playing t2 by (rule speak_while_playing)
  then have playing2: "isPlaying ?s2" and same: "new_request t1 l1 p1 ?s2 = new_request t1 l1 p1 s"
    using playing by (simp_all add: new_request_def)
  have "speechQueue (speak t1 l1 p1 ?s2)
          = takeWhile (\<lambda>item. \<not> priority_or_1 item < p1) (speechQueue ?s2)
            @ new_request t1 l1 p1 s
            # dropWhile (\<lambda>item. \<not> priority_or_1 item < p1) (speechQueue ?s2)"
    using speak_while_playing [OF playing2 t1, of l1 p1] same by simp
  also have "speechQueue ?s2 = ?X @ new_request t2 l2 p2 s # ?Y"
    using s2 by simp
  finally have queue: "speechQueue (speak t1 l1 p1 ?s2)
          = ?A @ new_request t1 l1 p1 s # ?B @ new_request t2 l2 p2 s # ?Y"
    using takeWhile_dropWhile_past [of "\<lambda>item. priority_or_1 item < p1", OF lower]
    by simp
  have "spoken (speak t1 l1 p1 ?s2) = spoken s"
    using speak_while_playing [OF playing2 t1, of l1 p1] s2 by simp
  then have "spoken (drain (speak t1 l1 p1 ?s2))
          = spoken s @ ?A @ new_request t1 l1 p1 s # ?B @ new_request t2 l2 p2 s # ?Y"
    using queue by (simp add: drain_spoken)
  moreover have "speechQueue s = ?A @ ?B @ ?Y"
    by (simp only: append_assoc [symmetric] takeWhile_dropWhile_id)
  ultimately show "\<exists>A B C. speechQueue s = A @ B @ C
           \<and> speechQueue (speak t1 l1 p1 (speak t2 l2 p2 s))
               = A @ new_request t1 l1 p1 s # B @ new_request t2 l2 p2 s # C
           \<and> spoken (drain (speak t1 l1 p1 (speak t2 l2 p2 s)))
               = spoken s @ A @ new_request t1 l1 p1 s # B @ new_request t2 l2 p2 s # C"
    using queue by blast
next
  show general: "speechQueue (speak t1 l1 p1 s)
         = takeWhile (\<lambda>item. \<not> priority_or_1 item < p1) (speechQueue s)
           @ new_request t1 l1 p1 s
           # dropWhile (\<lambda>item. \<not> priority_or_1 item < p1) (speechQueue s)"
    using speak_while_playing [OF playing t1, of l1 p1] by simp
  assume sorted: "(\<forall>item \<in> set (speechQueue s). priority item \<noteq> 0)
          \<and> sorted_wrt (\<lambda>a b. priority b \<le> priority a) (speechQueue s)"
  then have "takeWhile (\<lambda>item. \<not> priority_or_1 item < p1) (speechQueue s)
               = takeWhile (\<lambda>item. \<not> priority item < p1) (speechQueue s)"
    and "dropWhile (\<lambda>item. \<not> priority_or_1 item < p1) (speechQueue s)
               = dropWhile (\<lambda>item. \<not> priority item < p1) (speechQueue s)"
    by (auto intro!: takeWhile_cong dropWhile_cong simp: priority_or_1_nonzero)
  with general sorted show filtered: "speechQueue (speak t1 l1 p1 s)
          = filter (\<lambda>item. p1 \<le> priority item) (speechQueue s)
            @ new_request t1 l1 p1 s
            # filter (\<lambda>item. priority item < p1) (speechQueue s)"
    by (simp add: sorted_insert_desc)
  show "sorted_wrt (\<lambda>a b. priority b \<le> priority a) (speechQueue (speak t1 l1 p1 s))"
    unfolding filtered using sorted
    by (intro sorted_wrt_insert_desc) (simp_all add: new_request_def)
qed

text \<open>The theorem at a queue of one request, while an utterance is playing.\<close>

theorem speech_queue_priority_order_witness:
  "isPlaying \<lparr>speechQueue = [\<lparr>text' = ''first'', language = ''en-US'', priority = 1\<rparr>],
             isPlaying = True, defaultLanguage = ''en-US'', spoken = []\<rparr>
   \<and> trim ''high'' \<noteq> [] \<and> trim ''low'' \<noteq> [] \<and> (1::rat) < 2 \<and> (1::rat) \<noteq> 0
   \<and> map text'
       (spoken (drain (speak ''high'' [] 2 (speak ''low'' [] 1
          \<lparr>speechQueue = [\<lparr>text' = ''first'', language = ''en-US'', priority = 1\<rparr>],
           isPlaying = True, defaultLanguage = ''en-US'', spoken = []\<rparr>))))
     = [''high'', ''first'', ''low'']"
proof -
  let ?s = "\<lparr>speechQueue = [\<lparr>text' = ''first'', language = ''en-US'', priority = 1\<rparr>],
             isPlaying = True, defaultLanguage = ''en-US'', spoken = []\<rparr>"
  have playing: "isPlaying ?s" by simp
  have t1: "trim ''high'' \<noteq> []" by (simp add: trim_def)
  have t2: "trim ''low'' \<noteq> []" by (simp add: trim_def)
  have order: "(1::rat) < 2 \<and> (1::rat) \<noteq> 0" by simp
  from speech_queue_priority_order [OF playing t1 t2, of 1 2 "[]" "[]"] order
  obtain A B C where "speechQueue ?s = A @ B @ C"
    and "spoken (drain (speak ''high'' [] 2 (speak ''low'' [] 1 ?s)))
           = spoken ?s @ A @ new_request ''high'' [] 2 ?s # B @ new_request ''low'' [] 1 ?s # C"
    by blast
  moreover have "map text' (spoken (drain (speak ''high'' [] 2 (speak ''low'' [] 1 ?s))))
     = [''high'', ''first'', ''low'']"
    by (simp add: drain_spoken speak_def trim_def new_request_def priority_or_1_def
          processQueue_def)
  ultimately show ?thesis
    using playing t1 t2 order by simp
qed

text \<open>
  Claim C1 as stated fails when nothing is playing: the first \<open>speak\<close> hands its request
  to \<open>speakText\<close> at once, so the request of priority 1 is dequeued before the one of
  priority 2.
\<close>

theorem speech_queue_idle_counterexample:
  "map priority
     (spoken (drain (speak ''high'' [] 2 (speak ''low'' [] 1
        \<lparr>speechQueue = [], isPlaying = False, defaultLanguage = ''en-US'', spoken = []\<rparr>))))
   = [1, 2]"
  by (simp add: drain_spoken speak_def trim_def new_request_def priority_or_1_def
        processQueue_def)

text \<open>
  A queued priority 0 is compared as 1, so a request of priority 1 does not pass one of
  priority 0.
\<close>

lemma speech_queue_zero_priority:
  "map priority
     (speechQueue (speak ''high'' [] 1 (speak ''low'' [] 0
        \<lparr>speechQueue = [], isPlaying = True, defaultLanguage = ''en-US'', spoken = []\<rparr>)))
   = [0, 1]"
  by (simp add: speak_def trim_def new_request_def priority_or_1_def processQueue_def)

section \<open>DeviceManager: the target of a thermostat\<close>

lemma clamp_in_range:
  assumes "n \<noteq> NaN" and "lo \<le> hi"
  shows "\<exists>t. Math_max (Fin lo) (Math_min (Fin hi) n) = Fin t \<and> lo \<le> t \<and> t \<le> hi"
  using assms by (cases n) (auto simp: Math_max_def Math_min_def)

lemma requested_temperature_number:
  assumes "converts_to_number v" and "converts_to_number t"
  shows "ToNumber (js_or v (js_or t (Num (Fin 72)))) \<noteq> NaN"
  using assms by (auto simp: js_or_def converts_to_number_def)

lemma controlThermostat_target:
  assumes "target_in_range st"
    and "converts_to_number (member (parameters command) ''value'')"
    and "converts_to_number (member (parameters command) ''temperature'')"
  shows "target_in_range (snd (controlThermostat st command))"
proof -
  from assms(1) obtain t where t: "properties st ''target'' = Some (Num (Fin t))"
    and range: "50 \<le> t" "t \<le> 90"
    by (auto simp: target_in_range_def split: option.splits prim.splits jsnum.splits)
  from clamp_in_range [OF requested_temperature_number [OF assms(2,3)], of 50 90]
  obtain r where "Math_max (Fin 50) (Math_min (Fin 90)
        (ToNumber (js_or (member (parameters command) ''value'')
           (js_or (member (parameters command) ''temperature'') (Num (Fin 72)))))) = Fin r"
    and "50 \<le> r" "r \<le> 90"
    by auto
  with t range show ?thesis
    by (simp add: controlThermostat_def target_in_range_def set_property_def Let_def
          member_def js_plus_nat_def js_minus_nat_def js_sub_def Math_max_def Math_min_def)
qed

lemma other_handlers_target:
  "properties (snd (controlLight st command)) ''target'' = properties st ''target''"
  "properties (snd (controlTV st command)) ''target'' = properties st ''target''"
  "properties (snd (controlSpeaker st command)) ''target'' = properties st ''target''"
  "properties (snd (controlGenericDevice st command)) ''target'' = properties st ''target''"
  by (simp_all add: controlLight_def controlTV_def controlSpeaker_def
        controlGenericDevice_def set_property_def Let_def)


lemma handler_target:
  assumes "target_in_range st"
    and "converts_to_number (member (parameters command) ''value'')"
    and "converts_to_number (member (parameters command) ''temperature'')"
  shows "target_in_range
           (snd (if device_type device = ''smart_light'' then controlLight st command
                 else if device_type device = ''thermostat'' then controlThermostat st command
                 else if device_type device = ''smart_tv'' then controlTV st command
                 else if device_type device = ''smart_speaker'' then controlSpeaker st command
                 else controlGenericDevice st command))"
  using assms controlThermostat_target [OF assms]
  by (simp add: target_in_range_def other_handlers_target)

lemma executeDeviceCommand_target:
  assumes "target_kept i m"
    and "converts_to_number (member (parameters command) ''value'')"
    and "converts_to_number (member (parameters command) ''temperature'')"
  shows "target_kept i (snd (executeDeviceCommand device command m))"
proof (cases "deviceStates m (device_id device)")
  case None
  with assms(1) show ?thesis
    by (simp add: executeDeviceCommand_def)
next
  case (Some st)
  show ?thesis
  proof (cases "i = device_id device")
    case True
    with Some assms(1) have "target_in_range st"
      by (simp add: target_kept_def)
    from handler_target [OF this assms(2,3), of device] Some True show ?thesis
      by (simp add: executeDeviceCommand_def target_kept_def split_beta Let_def)
  next
    case False
    with Some assms(1) show ?thesis
      by (simp add: executeDeviceCommand_def target_kept_def split_beta Let_def)
  qed
qed

lemma controlDevice_target:
  assumes "target_kept i m"
    and "converts_to_number (member params ''value'')"
    and "converts_to_number (member params ''temperature'')"
  shows "target_kept i (snd (controlDevice now deviceId act params m))"
proof -
  have *: "target_kept i (m'\<lparr>emitted := ev\<rparr>) = target_kept i m'" for m' ev
    by (simp add: target_kept_def)
  show ?thesis
    using assms(1)
      executeDeviceCommand_target [OF assms(1), of
        "\<lparr>command_id = ''cmd-'' @ decimal now, action = act, parameters = params\<rparr>"]
      assms(2,3)
    by (simp add: controlDevice_def * split_beta Let_def split: option.splits)
qed

lemma discoverDevices_target:
  "target_kept i (discoverDevices isOnline now m) = target_kept i m"
  by (simp add: target_kept_def discoverDevices_def target_in_range_def
        split: option.splits)


text \<open>
  Claim C3, amended. For every device state whose \<open>target\<close> is within [50, 90] (a
  thermostat's, from its construction on), after any sequence of \<open>controlDevice\<close> calls,
  to any device and with any action, whose \<open>value\<close> and \<open>temperature\<close> parameters are
  absent, \<open>null\<close>, booleans, numbers (\<open>NaN\<close> and the infinities included) or numeric
  strings, the \<open>target\<close> is within [50, 90].
\<close>

theorem thermostat_target_bounded:
  assumes "target_kept deviceId m" and "list_all control_with_numbers ops"
  shows "target_kept deviceId (run_operations ops m)"
  using assms
proof (induction ops arbitrary: m)
  case Nil
  then show ?case by (simp add: run_operations_def)
next
  case (Cons op ops)
  from Cons.prems(2) have op: "control_with_numbers op" and rest: "list_all control_with_numbers ops"
    by simp_all
  from op Cons.prems(1) have "target_kept deviceId (run_operation op m)"
    by (cases op) (simp_all add: controlDevice_target)
  from Cons.IH [OF this rest] show ?case
    by (simp add: run_operations_def)
qed

text \<open>The theorem at the seeded thermostat: a request of 120 degrees, then \<open>decrease\<close>.\<close>

theorem thermostat_target_bounded_witness:
  "target_kept ''main-thermostat'' (new_DeviceManager 30000 0 (\<lambda>deviceId. True))
   \<and> list_all control_with_numbers
        [ControlDevice 1 ''main-thermostat'' ''set_temperature'' [''value'' \<mapsto> Num (Fin 120)],
         ControlDevice 2 ''main-thermostat'' ''decrease'' Map.empty]
   \<and> target_kept ''main-thermostat''
        (run_operations
           [ControlDevice 1 ''main-thermostat'' ''set_temperature'' [''value'' \<mapsto> Num (Fin 120)],
            ControlDevice 2 ''main-thermostat'' ''decrease'' Map.empty]
           (new_DeviceManager 30000 0 (\<lambda>deviceId. True)))"
proof -
  have start: "target_kept ''main-thermostat'' (new_DeviceManager 30000 0 (\<lambda>deviceId. True))"
    by (simp add: target_kept_def target_in_range_def new_DeviceManager_def
          initializeDefaultDevices_def defaultDevices_def addDevice_def discoverDevices_def
          getDefaultProperties_def)
  have calls: "list_all control_with_numbers
        [ControlDevice 1 ''main-thermostat'' ''set_temperature'' [''value'' \<mapsto> Num (Fin 120)],
         ControlDevice 2 ''main-thermostat'' ''decrease'' Map.empty]"
    by (simp add: member_def converts_to_number_def)
  from thermostat_target_bounded [OF start calls] start calls show ?thesis
    by simp
qed

text \<open>
  Claim C3 as stated fails for a parameter that is not a number:
  \<open>Math.min(90, 'warm')\<close> is \<open>NaN\<close>, and so is the \<open>target\<close> afterwards.
\<close>

theorem thermostat_target_counterexample:
  "property_of ''main-thermostat'' ''target''
     (snd (controlDevice 1 ''main-thermostat'' ''set_temperature'' [''value'' \<mapsto> Str ''warm'']
             (new_DeviceManager 30000 0 (\<lambda>deviceId. True))))
   = Some (Num NaN)"
  by (simp add: property_of_def controlDevice_def executeDeviceCommand_def
        controlThermostat_def new_DeviceManager_def
        initializeDefaultDevices_def defaultDevices_def addDevice_def discoverDevices_def
        getDefaultProperties_def set_property_def member_def js_or_def Let_def
        StringToNumber_def trim_def decimal_literal_def unsigned_decimal_def
        Math_max_def Math_min_def)

text \<open>The two calls of the witness leave the target at 88.\<close>

lemma thermostat_target_moves:
  "property_of ''main-thermostat'' ''target''
     (run_operations
        [ControlDevice 1 ''main-thermostat'' ''set_temperature'' [''value'' \<mapsto> Num (Fin 120)],
         ControlDevice 2 ''main-thermostat'' ''decrease'' Map.empty]
        (new_DeviceManager 30000 0 (\<lambda>deviceId. True)))
   = Some (Num (Fin 88))"
  by (simp add: property_of_def run_operations_def controlDevice_def executeDeviceCommand_def
        controlThermostat_def new_DeviceManager_def
        initializeDefaultDevices_def defaultDevices_def addDevice_def discoverDevices_def
        getDefaultProperties_def set_property_def member_def js_or_def Let_def
        js_minus_nat_def js_sub_def Math_max_def Math_min_def)

section \<open>DeviceManager: the brightness of a light\<close>

lemma controlLight_brightness:
  assumes "brightness_in_range st"
    and "converts_to_number (member (parameters command) ''value'')"
    and "brightness_param_in_range (member (parameters command) ''brightness'')"
  shows "brightness_in_range (snd (controlLight st command))"
proof -
  from assms(1) obtain b where b: "properties st ''brightness'' = Some (Num (Fin b))"
    and range: "0 \<le> b" "b \<le> 100"
    by (auto simp: brightness_in_range_def split: option.splits prim.splits jsnum.splits)
  from assms(2) have "ToNumber (js_or (member (parameters command) ''value'') (Num (Fin 50)))
                        \<noteq> NaN"
    by (auto simp: js_or_def converts_to_number_def)
  from clamp_in_range [OF this, of 0 100] obtain r where
    set: "Math_max (Fin 0) (Math_min (Fin 100)
            (ToNumber (js_or (member (parameters command) ''value'') (Num (Fin 50))))) = Fin r"
    and "0 \<le> r" "r \<le> 100"
    by auto
  from assms(3) have
    "\<exists>r'. js_or (member (parameters command) ''brightness'') (Num (Fin 100)) = Num (Fin r')
          \<and> 0 \<le> r' \<and> r' \<le> 100"
    by (cases "member (parameters command) ''brightness''")
       (auto simp: js_or_def brightness_param_in_range_def split: jsnum.splits)
  then obtain r' where
    turn_on: "js_or (member (parameters command) ''brightness'') (Num (Fin 100)) = Num (Fin r')"
    and "0 \<le> r'" "r' \<le> 100"
    by auto
  with b range set \<open>0 \<le> r\<close> \<open>r \<le> 100\<close> show ?thesis
    by (simp add: controlLight_def brightness_in_range_def set_property_def Let_def
          member_def js_plus_nat_def js_minus_nat_def js_sub_def Math_max_def Math_min_def)
qed

lemma other_handlers_brightness:
  "properties (snd (controlThermostat st command)) ''brightness'' = properties st ''brightness''"
  "properties (snd (controlTV st command)) ''brightness'' = properties st ''brightness''"
  "properties (snd (controlSpeaker st command)) ''brightness'' = properties st ''brightness''"
  "properties (snd (controlGenericDevice st command)) ''brightness''
     = properties st ''brightness''"
  by (simp_all add: controlThermostat_def controlTV_def controlSpeaker_def
        controlGenericDevice_def set_property_def Let_def)

lemma handler_brightness:
  assumes "brightness_in_range st"
    and "converts_to_number (member (parameters command) ''value'')"
    and "brightness_param_in_range (member (parameters command) ''brightness'')"
  shows "brightness_in_range
           (snd (if device_type device = ''smart_light'' then controlLight st command
                 else if device_type device = ''thermostat'' then controlThermostat st command
                 else if device_type device = ''smart_tv'' then controlTV st command
                 else if device_type device = ''smart_speaker'' then controlSpeaker st command
                 else controlGenericDevice st command))"
  using assms controlLight_brightness [OF assms]
  by (simp add: brightness_in_range_def other_handlers_brightness)

lemma executeDeviceCommand_brightness:
  assumes "brightness_kept i m"
    and "converts_to_number (member (parameters command) ''value'')"
    and "brightness_param_in_range (member (parameters command) ''brightness'')"
  shows "brightness_kept i (snd (executeDeviceCommand device command m))"
proof (cases "deviceStates m (device_id device)")
  case None
  with assms(1) show ?thesis
    by (simp add: executeDeviceCommand_def)
next
  case (Some st)
  show ?thesis
  proof (cases "i = device_id device")
    case True
    with Some assms(1) have "brightness_in_range st"
      by (simp add: brightness_kept_def)
    from handler_brightness [OF this assms(2,3), of device] Some True show ?thesis
      by (simp add: executeDeviceCommand_def brightness_kept_def split_beta Let_def)
  next
    case False
    with Some assms(1) show ?thesis
      by (simp add: executeDeviceCommand_def brightness_kept_def split_beta Let_def)
  qed
qed

lemma controlDevice_brightness:
  assumes "brightness_kept i m"
    and "converts_to_number (member params ''value'')"
    and "brightness_param_in_range (member params ''brightness'')"
  shows "brightness_kept i (snd (controlDevice now deviceId act params m))"
proof -
  have *: "brightness_kept i (m'\<lparr>emitted := ev\<rparr>) = brightness_kept i m'" for m' ev
    by (simp add: brightness_kept_def)
  show ?thesis
    using assms(1)
      executeDeviceCommand_brightness [OF assms(1), of
        "\<lparr>command_id = ''cmd-'' @ decimal now, action = act, parameters = params\<rparr>"]
      assms(2,3)
    by (simp add: controlDevice_def * split_beta Let_def split: option.splits)
qed

text \<open>
  What holds of claim C2: the brightness of a light stays within [0, 100] under every
  sequence of \<open>controlDevice\<close> calls whose \<open>value\<close> parameter converts to a number and
  whose \<open>brightness\<close> parameter is absent, falsy or itself within [0, 100].
\<close>

lemma light_brightness_bounded:
  assumes "brightness_kept deviceId m" and "list_all control_light_in_range ops"
  shows "brightness_kept deviceId (run_operations ops m)"
  using assms
proof (induction ops arbitrary: m)
  case Nil
  then show ?case by (simp add: run_operations_def)
next
  case (Cons op ops)
  from Cons.prems(2) have op: "control_light_in_range op"
    and rest: "list_all control_light_in_range ops"
    by simp_all
  from op Cons.prems(1) have "brightness_kept deviceId (run_operation op m)"
    by (cases op) (simp_all add: controlDevice_brightness)
  from Cons.IH [OF this rest] show ?case
    by (simp add: run_operations_def)
qed

text \<open>
  Claim C2 says that the brightness of a light stays within [0, 100] under every action
  and every parameter. \<open>dim\<close>, \<open>brighten\<close> and \<open>set_brightness\<close> clamp; \<open>turn_on\<close>
  stores \<open>parameters.brightness\<close> as it comes: after
  \<open>controlDevice('living_room-light', 'turn_on', {brightness: 150})\<close> the brightness
  is 150.
\<close>

theorem light_turn_on_brightness_unclamped:
  "property_of ''living_room-light'' ''brightness''
     (snd (controlDevice 1 ''living_room-light'' ''turn_on'' [''brightness'' \<mapsto> Num (Fin 150)]
             (new_DeviceManager 30000 0 (\<lambda>deviceId. True))))
   = Some (Num (Fin 150))"
  by (simp add: property_of_def controlDevice_def executeDeviceCommand_def
        controlLight_def new_DeviceManager_def
        initializeDefaultDevices_def defaultDevices_def addDevice_def discoverDevices_def
        getDefaultProperties_def set_property_def member_def js_or_def Let_def)

section \<open>DeviceManager: unknown and offline devices\<close>

text \<open>
  Claim C4. When the device id is not in the registry, or the device has no state or a
  state whose status is not \<open>online\<close>, \<open>controlDevice\<close> returns \<open>false\<close> and leaves the
  manager as it was: the registry, every device state and the events emitted. The result
  is a value: no exception leaves the call.
\<close>

theorem controlDevice_unavailable:
  assumes "devices m deviceId = None
           \<or> (case deviceStates m deviceId of
                 None \<Rightarrow> True
               | Some deviceState \<Rightarrow> state_status deviceState \<noteq> Online)"
  shows "controlDevice now deviceId act params m = (False, m)"
  using assms by (auto simp: controlDevice_def split: option.splits)

text \<open>
  The theorem at a manager whose first discovery pass found the kitchen light offline:
  for an unknown id, and for the kitchen light.
\<close>

theorem controlDevice_unavailable_witness:
  "devices (new_DeviceManager 30000 0 (\<lambda>deviceId. deviceId \<noteq> ''kitchen-light'')) ''garage-door''
     = None
   \<and> controlDevice 7 ''garage-door'' ''turn_on'' Map.empty
       (new_DeviceManager 30000 0 (\<lambda>deviceId. deviceId \<noteq> ''kitchen-light''))
     = (False, new_DeviceManager 30000 0 (\<lambda>deviceId. deviceId \<noteq> ''kitchen-light''))
   \<and> map_option state_status
       (deviceStates (new_DeviceManager 30000 0 (\<lambda>deviceId. deviceId \<noteq> ''kitchen-light''))
          ''kitchen-light'')
     = Some Offline
   \<and> controlDevice 7 ''kitchen-light'' ''turn_on'' [''brightness'' \<mapsto> Num (Fin 40)]
       (new_DeviceManager 30000 0 (\<lambda>deviceId. deviceId \<noteq> ''kitchen-light''))
     = (False, new_DeviceManager 30000 0 (\<lambda>deviceId. deviceId \<noteq> ''kitchen-light''))"
proof -
  let ?m = "new_DeviceManager 30000 0 (\<lambda>deviceId. deviceId \<noteq> ''kitchen-light'')"
  have unknown: "devices ?m ''garage-door'' = None"
    by (simp add: new_DeviceManager_def initializeDefaultDevices_def defaultDevices_def
          addDevice_def discoverDevices_def)
  have offline: "map_option state_status (deviceStates ?m ''kitchen-light'') = Some Offline"
    by (simp add: new_DeviceManager_def initializeDefaultDevices_def defaultDevices_def
          addDevice_def discoverDevices_def)
  then have offline': "case deviceStates ?m ''kitchen-light'' of
                 None \<Rightarrow> True
               | Some deviceState \<Rightarrow> state_status deviceState \<noteq> Online"
    by (auto split: option.splits)
  from controlDevice_unavailable [of ?m "''garage-door''" 7 "''turn_on''" Map.empty]
    controlDevice_unavailable [of ?m "''kitchen-light''" 7 "''turn_on''"
      "[''brightness'' \<mapsto> Num (Fin 40)]"]
    unknown offline offline'
  show ?thesis by blast
qed

section \<open>DeviceManager: the two maps\<close>

lemma addDevice_dom:
  "dom (devices m) = dom (deviceStates m) \<Longrightarrow>
     dom (devices (addDevice now device m)) = dom (deviceStates (addDevice now device m))"
  by (simp add: addDevice_def)

lemma removeDevice_dom:
  "dom (devices m) = dom (deviceStates m) \<Longrightarrow>
     dom (devices (snd (removeDevice deviceId m)))
       = dom (deviceStates (snd (removeDevice deviceId m)))"
  by (auto simp: removeDevice_def split: option.splits)

lemma discoverDevices_dom:
  "dom (deviceStates (discoverDevices isOnline now m)) = dom (deviceStates m)"
  "devices (discoverDevices isOnline now m) = devices m"
  by (auto simp: discoverDevices_def dom_def split: option.splits)

lemma executeDeviceCommand_dom:
  "dom (deviceStates (snd (executeDeviceCommand device command m))) = dom (deviceStates m)"
  "devices (snd (executeDeviceCommand device command m)) = devices m"
  by (auto simp: executeDeviceCommand_def split_beta Let_def split: option.splits)

lemma controlDevice_dom:
  "dom (deviceStates (snd (controlDevice now deviceId act params m))) = dom (deviceStates m)"
  "devices (snd (controlDevice now deviceId act params m)) = devices m"
  by (simp_all add: controlDevice_def executeDeviceCommand_dom split_beta Let_def
        split: option.splits)

lemma run_operation_dom:
  assumes "dom (devices m) = dom (deviceStates m)"
  shows "dom (devices (run_operation op m)) = dom (deviceStates (run_operation op m))"
  using assms
  by (cases op)
     (simp_all add: addDevice_dom removeDevice_dom discoverDevices_dom controlDevice_dom
        destroy_def)

lemma run_operations_dom:
  assumes "dom (devices m) = dom (deviceStates m)"
  shows "dom (devices (run_operations ops m)) = dom (deviceStates (run_operations ops m))"
  using assms unfolding run_operations_def
  by (induction ops arbitrary: m) (simp_all add: run_operation_dom)

lemma new_DeviceManager_dom:
  "dom (devices (new_DeviceManager interval now isOnline))
     = dom (deviceStates (new_DeviceManager interval now isOnline))"
proof -
  have "dom (devices (fold (addDevice now) ds m)) = dom (deviceStates (fold (addDevice now) ds m))"
    if "dom (devices m) = dom (deviceStates m)" for ds m
    using that by (induction ds arbitrary: m) (simp_all add: addDevice_dom)
  then show ?thesis
    by (simp add: new_DeviceManager_def initializeDefaultDevices_def discoverDevices_dom)
qed

text \<open>
  Claim C10. After the constructor and any sequence of \<open>addDevice\<close>, \<open>removeDevice\<close>,
  \<open>controlDevice\<close>, discovery passes and \<open>destroy\<close>, the maps \<open>devices\<close> and
  \<open>deviceStates\<close> have the same keys, and \<open>removeDevice\<close> returns \<open>true\<close> exactly when the
  id is registered.
\<close>

theorem registry_maps_agree:
  "dom (devices (run_operations ops (new_DeviceManager interval now isOnline)))
     = dom (deviceStates (run_operations ops (new_DeviceManager interval now isOnline)))
   \<and> fst (removeDevice deviceId (run_operations ops (new_DeviceManager interval now isOnline)))
     = (deviceId \<in> dom (devices (run_operations ops (new_DeviceManager interval now isOnline))))"
proof
  show "dom (devices (run_operations ops (new_DeviceManager interval now isOnline)))
     = dom (deviceStates (run_operations ops (new_DeviceManager interval now isOnline)))"
    by (rule run_operations_dom) (rule new_DeviceManager_dom)
  show "fst (removeDevice deviceId (run_operations ops (new_DeviceManager interval now isOnline)))
     = (deviceId \<in> dom (devices (run_operations ops (new_DeviceManager interval now isOnline))))"
    by (simp add: removeDevice_def dom_def split: option.splits)
qed

section \<open>LanguageProcessing\<close>

text \<open>
  A match never ends before it starts, and a match of an expression that is
  \<open>consuming\<close> is not empty. So the loop of \<open>extractEntities\<close> ends for the entity patterns
  of the repository, and \<open>processCommand\<close> returns.
\<close>

lemma lit_match_length:
  "y \<in> set (lit_match cs x) \<Longrightarrow> length (snd y) + length cs = length (snd x)"
  by (induction cs x rule: lit_match.induct) (auto split: if_splits)

lemma class_match_length:
  "y \<in> set (class_match P x) \<Longrightarrow> Suc (length (snd y)) = length (snd x)"
  by (induction P x rule: class_match.induct) (auto split: if_splits)

lemma rmatch_length:
  "y \<in> set (rmatch r x) \<Longrightarrow>
     length (snd y) \<le> length (snd x) \<and> (consuming r \<longrightarrow> length (snd y) < length (snd x))"
proof (induction r x arbitrary: y rule: rmatch.induct)
  case (1 cs x)
  then show ?case
    using lit_match_length [of y cs x] by (cases cs) (auto simp: rmatch.simps)
next
  case (2 x)
  then show ?case
    using class_match_length [of y is_js_space x] by (auto simp: rmatch.simps)
next
  case (3 x)
  then show ?case
    using class_match_length [of y is_digit x] by (auto simp: rmatch.simps)
next
  case (4 x)
  then show ?case
    using class_match_length [of y "\<lambda>a. \<not> is_line_terminator a" x]
    by (auto simp: rmatch.simps)
next
  case (5 x)
  then show ?case by (auto simp: rmatch.simps split: if_splits)
next
  case (6 r1 r2 x)
  from "6.prems" obtain z where z: "z \<in> set (rmatch r1 x)" and y: "y \<in> set (rmatch r2 z)"
    by (auto simp: rmatch.simps(6))
  from "6.IH"(1) [OF z] "6.IH"(2) [OF z y] show ?case
    by auto
next
  case (7 r1 r2 x)
  from "7.prems" have "y \<in> set (rmatch r1 x) \<or> y \<in> set (rmatch r2 x)"
    by (simp add: rmatch.simps(7))
  with "7.IH"(1) [of y] "7.IH"(2) [of y] show ?case
    by auto
next
  case (8 r x)
  from "8.prems" have "(y \<in> set (rmatch r x) \<and> length (snd y) < length (snd x)) \<or> y = x"
    by (auto simp: rmatch.simps(8))
  then show ?case by auto
next
  case (9 r x)
  from "9.prems" have
    "y \<in> set (concat (map (\<lambda>z. if length (snd z) < length (snd x)
                                     then rmatch (Star r) z else [])
                              (rmatch r x)) @ [x])"
    by (simp only: rmatch.simps(9) [of r x])
  then have
    "(\<exists>z \<in> set (rmatch r x). length (snd z) < length (snd x) \<and> y \<in> set (rmatch (Star r) z))
     \<or> y = x"
    by (auto split: if_splits)
  then show ?case
  proof
    assume "\<exists>z \<in> set (rmatch r x). length (snd z) < length (snd x)
              \<and> y \<in> set (rmatch (Star r) z)"
    then obtain z where z: "z \<in> set (rmatch r x)" and shorter: "length (snd z) < length (snd x)"
      and y: "y \<in> set (rmatch (Star r) z)"
      by auto
    from "9.IH"(2) [OF z shorter y] shorter show ?thesis
      by simp
  next
    assume "y = x"
    then show ?thesis by simp
  qed
next
  case (10 r x)
  from "10.prems" obtain z where z: "z \<in> set (rmatch r x)" and y: "y \<in> set (rmatch (Star r) z)"
    by (auto simp: rmatch.simps(10))
  from "10.IH"(1) [OF z] "10.IH"(2) [OF z y] show ?case
    by auto
qed

lemma search_consuming:
  assumes "consuming r" and "search r p s i = Some (j, m)"
  shows "m \<noteq> []"
  using assms(2)
proof (induction s arbitrary: p i)
  case Nil
  show ?case
  proof (cases "rmatch r (p, [])")
    case empty: Nil
    with Nil.prems show ?thesis
      by (simp add: search.simps [of r p "[]" i])
  next
    case (Cons y ys)
    then have "y \<in> set (rmatch r (p, []))" by simp
    from rmatch_length [OF this] assms(1) show ?thesis by simp
  qed
next
  case (Cons a s)
  show ?case
  proof (cases "rmatch r (p, a # s)")
    case Nil
    with Cons.prems have "search r (Some a) s (Suc i) = Some (j, m)"
      by (simp add: search.simps [of r p "a # s" i])
    then show ?thesis by (rule Cons.IH)
  next
    case first: (Cons y ys)
    then have "y \<in> set (rmatch r (p, a # s))" by simp
    from rmatch_length [OF this] assms(1) have "length (snd y) < Suc (length s)"
      by simp
    moreover from first Cons.prems have "m = take (length (a # s) - length (snd y)) (a # s)"
      by (simp add: search.simps [of r p "a # s" i])
    ultimately show ?thesis by auto
  qed
qed

lemma exec_all_returns:
  "consuming r \<Longrightarrow> \<exists>ms. exec_all r p s i = Some ms"
proof (induction r p s i rule: exec_all.induct)
  case (1 r p s i)
  show ?case
  proof (cases "search r p s i")
    case None
    then show ?thesis by (simp add: exec_all.simps [of r p s i])
  next
    case (Some jm)
    obtain j m where jm: "jm = (j, m)" by (cases jm)
    with Some have found: "search r p s i = Some (j, m)"
      by simp
    with "1.prems" have m: "m \<noteq> []"
      by (rule search_consuming)
    from "1.IH" [OF Some jm [symmetric] m "1.prems"] obtain ms where
      "exec_all r (Some (last m)) (drop (j - i + length m) s) (j + length m) = Some ms"
      by auto
    with found m show ?thesis
      by (simp add: exec_all.simps [of r p s i])
  qed
qed

lemma extractEntities_returns:
  assumes "list_all (\<lambda>(entityType, pattern). consuming pattern) patterns"
  shows "\<exists>entities. extractEntities patterns subject = Some entities"
proof -
  have "\<exists>entities. fold (\<lambda>(entityType, pattern) entities.
             case entities of
               None \<Rightarrow> None
             | Some es \<Rightarrow>
                 (case exec_all pattern None subject 0 of
                    None \<Rightarrow> None
                  | Some ms \<Rightarrow>
                      Some (es @ map (\<lambda>(index, m).
                                        \<lparr>entity_type = entityType,
                                         entity_value = normalizeEntityValue m entityType,
                                         entity_start = index,
                                         entity_end = index + length m,
                                         entity_confidence = Fin (9 / 10)\<rparr>) ms)))
          patterns (Some acc) = Some entities" for acc
    using assms
  proof (induction patterns arbitrary: acc)
    case Nil
    show ?case by simp
  next
    case (Cons tp patterns)
    obtain t p where tp: "tp = (t, p)" by (cases tp)
    with Cons.prems have "consuming p" and rest: "list_all (\<lambda>(entityType, pattern). consuming pattern) patterns"
      by simp_all
    from exec_all_returns [OF this(1), of None subject 0] obtain ms where
      "exec_all p None subject 0 = Some ms" by auto
    with Cons.IH [OF rest] tp show ?case
      by simp
  qed
  then show ?thesis
    by (simp add: extractEntities_def)
qed

lemma extractIntent_no_match:
  assumes "no_pattern_matches patterns command"
  shows "extractIntent patterns command = unknown_intent"
proof -
  have inner: "fold (try_pattern command n) ps best = best"
    if "list_all (\<lambda>p. js_match p command = None) ps" for n ps best
    using that by (induction ps arbitrary: best) (simp_all add: try_pattern_def)
  have "fold (\<lambda>(intentName, ps) bestMatch. fold (try_pattern command intentName) ps bestMatch)
          patterns best = best" for best
    using assms unfolding no_pattern_matches_def
    by (induction patterns arbitrary: best) (auto simp: inner)
  then show ?thesis
    by (simp add: extractIntent_def)
qed


text \<open>
  Claim C5 says that \<open>processCommand("turn on the living room lights")\<close> has the intent
  \<open>device_control\<close>, the action \<open>turn_on\<close>, a room entity \<open>living_room\<close> and a device
  entity whose value contains \<open>light\<close>. The first three hold. The device pattern is
  \<open>\\b(light|\<dots>)\\b\<close>: in \<open>lights\<close> no word boundary follows \<open>light\<close>, and the result has
  no device entity.
\<close>

theorem living_room_lights_without_device:
  "processCommand ''turn on the living room lights'' =
     Some \<lparr>result_intent = ''device_control'', result_action = ''turn_on'',
           result_entities =
             [\<lparr>entity_type = ''room'', entity_value = ''living_room'',
               entity_start = 12, entity_end = 23, entity_confidence = Fin (9 / 10)\<rparr>,
              \<lparr>entity_type = ''action'', entity_value = ''on'',
               entity_start = 5, entity_end = 7, entity_confidence = Fin (9 / 10)\<rparr>],
           result_confidence = Fin (9 / 10),
           originalText = ''turn on the living room lights''\<rparr>"
  by code_simp

text \<open>The device pattern has no match in the command.\<close>

lemma lights_is_not_light:
  "exec_all (snd (entityPatterns ! 0)) None ''turn on the living room lights'' 0 = Some []"
  by code_simp

text \<open>
  Claim C6. \<open>processCommand("xyz random command")\<close> has the intent \<open>unknown\<close>, the action
  \<open>unknown\<close> and the confidence 0. More generally, for every table of intent patterns
  none of which matches the normalized command (and entity patterns that match no empty
  string, as those of the repository do), \<open>processCommand\<close> returns a result with the
  intent \<open>unknown\<close>, the action \<open>unknown\<close> and the confidence 0.
\<close>

theorem unknown_command:
  "processCommand ''xyz random command'' =
     Some \<lparr>result_intent = ''unknown'', result_action = ''unknown'', result_entities = [],
           result_confidence = Fin 0, originalText = ''xyz random command''\<rparr>
   \<and> (no_pattern_matches intents (trim (toLowerCase command))
        \<and> list_all (\<lambda>(entityType, pattern). consuming pattern) entityTable \<longrightarrow>
      (\<exists>result. processCommand_with intents entityTable command = Some result
         \<and> result_intent result = ''unknown'' \<and> result_action result = ''unknown''
         \<and> result_confidence result = Fin 0))"
proof (intro conjI impI)
  show "processCommand ''xyz random command'' =
     Some \<lparr>result_intent = ''unknown'', result_action = ''unknown'', result_entities = [],
           result_confidence = Fin 0, originalText = ''xyz random command''\<rparr>"
    by code_simp
next
  assume "no_pattern_matches intents (trim (toLowerCase command))
        \<and> list_all (\<lambda>(entityType, pattern). consuming pattern) entityTable"
  then have unknown: "extractIntent intents (trim (toLowerCase command)) = unknown_intent"
    and "\<exists>entities. extractEntities entityTable command = Some entities"
    by (simp_all add: extractIntent_no_match extractEntities_returns)
  then obtain entities where "extractEntities entityTable command = Some entities"
    by auto
  with unknown show "\<exists>result. processCommand_with intents entityTable command = Some result
         \<and> result_intent result = ''unknown'' \<and> result_action result = ''unknown''
         \<and> result_confidence result = Fin 0"
    by (simp add: processCommand_with_def unknown_intent_def determineAction_def)
qed

text \<open>The general part at the pattern tables of the repository and the command of the claim.\<close>

theorem unknown_command_witness:
  "no_pattern_matches intentPatterns (trim (toLowerCase ''xyz random command''))
   \<and> list_all (\<lambda>(entityType, pattern). consuming pattern) entityPatterns
   \<and> (\<exists>result. processCommand_with intentPatterns entityPatterns ''xyz random command''
                   = Some result
         \<and> result_intent result = ''unknown'' \<and> result_action result = ''unknown''
         \<and> result_confidence result = Fin 0)"
proof -
  have none: "no_pattern_matches intentPatterns (trim (toLowerCase ''xyz random command''))"
    by code_simp
  have entities: "list_all (\<lambda>(entityType, pattern). consuming pattern) entityPatterns"
    by code_simp
  from unknown_command [of intentPatterns "''xyz random command''" entityPatterns]
    none entities
  show ?thesis by blast
qed

text \<open>
  Claim C7. The confidence of \<open>processCommand("turn on lights")\<close> is 0.9, that of
  \<open>processCommand("maybe turn on lights please")\<close> is 13/18, which is less. For a command
  that is not empty, the confidence of a match is the length of the match over the length
  of the command, times 0.8, plus 0.1 when the match starts the command or follows a
  white space, and at most 1.
\<close>

theorem confidence_ordering:
  "map_option result_confidence (processCommand ''turn on lights'') = Some (Fin (9 / 10))
   \<and> map_option result_confidence (processCommand ''maybe turn on lights please'')
       = Some (Fin (13 / 18))
   \<and> js_gt (Fin (9 / 10)) (Fin (13 / 18))
   \<and> (command \<noteq> [] \<longrightarrow>
        calculatePatternConfidence (index, matched) command
          = Fin (min 1 (of_nat (length matched) / of_nat (length command) * (8 / 10)
                        + (if index = 0
                              \<or> (index - 1 < length command
                                  \<and> is_js_space (command ! (index - 1)))
                           then 1 / 10 else 0))))"
proof (intro conjI impI)
  show "map_option result_confidence (processCommand ''turn on lights'') = Some (Fin (9 / 10))"
    by code_simp
  show "map_option result_confidence (processCommand ''maybe turn on lights please'')
       = Some (Fin (13 / 18))"
    by code_simp
  show "js_gt (Fin (9 / 10)) (Fin (13 / 18))"
    by (simp add: js_gt_def)
next
  assume "command \<noteq> []"
  then show "calculatePatternConfidence (index, matched) command
          = Fin (min 1 (of_nat (length matched) / of_nat (length command) * (8 / 10)
                        + (if index = 0
                              \<or> (index - 1 < length command
                                  \<and> is_js_space (command ! (index - 1)))
                           then 1 / 10 else 0)))"
    by (auto simp: calculatePatternConfidence_def Let_def Math_min_def min_def)
qed

text \<open>The formula at the match of the second command.\<close>

theorem confidence_ordering_witness:
  "''maybe turn on lights please'' \<noteq> []
   \<and> calculatePatternConfidence (6, ''turn on lights please'') ''maybe turn on lights please''
       = Fin (13 / 18)"
proof -
  have nonempty: "''maybe turn on lights please'' \<noteq> []"
    by simp
  have "Fin (min 1 (of_nat (length ''turn on lights please'')
                      / of_nat (length ''maybe turn on lights please'') * (8 / 10)
                    + (if (6::nat) = 0
                          \<or> (6 - 1 < length ''maybe turn on lights please''
                              \<and> is_js_space (''maybe turn on lights please'' ! (6 - 1)))
                       then 1 / 10 else 0)))
        = Fin (13 / 18)"
    by simp
  with confidence_ordering [of "''maybe turn on lights please''" 6 "''turn on lights please''"]
    nonempty
  show ?thesis by simp
qed

section \<open>ConfigManager: export and import\<close>










text \<open>
  The two other conditions of the amended claim are needed as well. A configuration that
  holds \<open>-0\<close> comes back with \<open>0\<close>.
\<close>

lemma import_export_negative_zero:
  "(case update fresh_realm (Obj [(''minConfidence'', NegZero)])
           (reset \<lparr>config = Obj []\<rparr>) of
      Returns c \<Rightarrow>
        (case export c of
           Some exported \<Rightarrow>
             (map_of (own_entries (config c)) ''minConfidence'',
              fst (import' fresh_realm exported c),
              map_of (own_entries (config (snd (import' fresh_realm exported c))))
                ''minConfidence'')
         | None \<Rightarrow> (None, Unmodelled, None))
    | _ \<Rightarrow> (None, Unmodelled, None))
   = (Some NegZero, Returns (), Some (Prim (Num (Fin 0))))"
  by code_simp

text \<open>
  Where \<open>Object.prototype\<close> has an enumerable member \<open>x\<close> (after
  \<open>set('__proto__.x', 1)\<close>), the loop of \<open>deepMerge\<close> visits it, and the default
  configuration comes back with an own member \<open>x\<close>.
\<close>

lemma import_export_inherited_member:
  "(case export (reset \<lparr>config = Obj []\<rparr>) of
      Some exported \<Rightarrow>
        (map_of (own_entries (config (reset \<lparr>config = Obj []\<rparr>))) ''x'',
         fst (import' (\<lambda>k. [(''x'', Num (Fin 1))]) exported (reset \<lparr>config = Obj []\<rparr>)),
         map_of (own_entries (config (snd (import' (\<lambda>k. [(''x'', Num (Fin 1))]) exported
                                              (reset \<lparr>config = Obj []\<rparr>))))) ''x'')
    | None \<Rightarrow> (None, Unmodelled, None))
   = (None, Returns (), Some (Prim (Num (Fin 1))))"
  by code_simp

text \<open>
  Two calls at the border of the model: an imported key \<open>__proto__\<close> that the
  configuration does not own replaces the prototype of the result, and a target that is
  \<open>null\<close> cannot be read.
\<close>

lemma import_prototype_member:
  "import' fresh_realm (Document (Obj [(''__proto__'', Obj [(''x'', Prim (Num (Fin 1)))])]))
     (reset \<lparr>config = Obj []\<rparr>)
   = (Unmodelled, reset \<lparr>config = Obj []\<rparr>)"
  by code_simp

lemma deepMerge_nullish_target:
  "deepMerge fresh_realm (Prim Null) (Obj [(''a'', Obj [])]) = Throws TypeError"
  by code_simp

section \<open>EventEmitter: delivery\<close>






text \<open>
  In that run the third listener finds the state that the first one left, and the
  exception of the second is reported on the console.
\<close>

lemma emit_example_state:
  "world (emitter (snd (emit (\<lambda>n d s. if n = 1 then (None, s\<lparr>world := world s + d\<rparr>)
                                       else if n = 2 then (Some (Error ''boom''), s)
                                       else (None, s\<lparr>world := world s * 2\<rparr>)) ''ready'' 5
        (on ''ready'' (Callback 3) (on ''ready'' (Callback 2) (on ''ready'' (Callback 1)
           (new_EventEmitter (0::nat)))))))) = 10
   \<and> console (snd (emit (\<lambda>n d s. if n = 1 then (None, s\<lparr>world := world s + d\<rparr>)
                                  else if n = 2 then (Some (Error ''boom''), s)
                                  else (None, s\<lparr>world := world s * 2\<rparr>)) ''ready'' 5
        (on ''ready'' (Callback 3) (on ''ready'' (Callback 2) (on ''ready'' (Callback 1)
           (new_EventEmitter (0::nat))))))) = [(''ready'', Error ''boom'')]"
  by (simp add: emit_def on_def new_EventEmitter_def forEach.simps guarded_call_def Let_def)


text \<open>
  A closure of \<open>once\<close> removes itself while \<open>forEach\<close> runs, and the listener after it
  moves to its index: that listener is not called in this \<open>emit\<close>.
\<close>

lemma emit_once_passes_over_next:
  "calls (snd (emit (\<lambda>n d s. (None, s)) ''ready'' ()
        (on ''ready'' (Callback 2) (once ''ready'' (Callback 1) (new_EventEmitter ())))))
   = [OnceCallback 0 ''ready'' (Callback 1)]"
  by (simp add: emit_def forEach.simps guarded_call_def on_def off_def once_def
        new_EventEmitter_def Let_def)

end
